theory Spec2Isabelle
  imports Main "HOL-Library.Char_ord" "HOL-Library.List_Lexorder"
begin

section \<open>Python string operations used by the terminal\<close>

text \<open>
  Strings are \<^typ>\<open>string\<close>: lists of characters, each a code point below 256, compared
  by code point.  \<open>lower\<close> is \<^verbatim>\<open>str.lower\<close> on these code points: the ASCII capitals
  and the capitals U+00C0 to U+00DE (but not the multiplication sign U+00D7) move to the
  small letter 32 places up.  \<open>upper\<close> moves the ASCII small letters and U+00E0 to
  U+00FE (but not the division sign U+00F7) 32 places down, as \<^verbatim>\<open>str.upper\<close> does.
  \<^verbatim>\<open>str.upper\<close> takes three characters out of this range (U+00B5 to U+039C, U+00DF to
  \<^verbatim>\<open>SS\<close>, U+00FF to U+0178); \<open>upper\<close> leaves them as they are, and no string holding
  one of them has an upper-case form equal to, or beginning with, a device name or an
  alias of the program.
\<close>

definition lower_table :: "(char \<times> char) list" where
  "lower_table =
     zip ''ABCDEFGHIJKLMNOPQRSTUVWXYZ'' ''abcdefghijklmnopqrstuvwxyz'' @
     zip [CHR 0xC0, CHR 0xC1, CHR 0xC2, CHR 0xC3, CHR 0xC4, CHR 0xC5, CHR 0xC6, CHR 0xC7, CHR 0xC8, CHR 0xC9,
          CHR 0xCA, CHR 0xCB, CHR 0xCC, CHR 0xCD, CHR 0xCE, CHR 0xCF, CHR 0xD0, CHR 0xD1, CHR 0xD2, CHR 0xD3,
          CHR 0xD4, CHR 0xD5, CHR 0xD6, CHR 0xD8, CHR 0xD9, CHR 0xDA, CHR 0xDB, CHR 0xDC, CHR 0xDD, CHR 0xDE]
         [CHR 0xE0, CHR 0xE1, CHR 0xE2, CHR 0xE3, CHR 0xE4, CHR 0xE5, CHR 0xE6, CHR 0xE7, CHR 0xE8, CHR 0xE9,
          CHR 0xEA, CHR 0xEB, CHR 0xEC, CHR 0xED, CHR 0xEE, CHR 0xEF, CHR 0xF0, CHR 0xF1, CHR 0xF2, CHR 0xF3,
          CHR 0xF4, CHR 0xF5, CHR 0xF6, CHR 0xF8, CHR 0xF9, CHR 0xFA, CHR 0xFB, CHR 0xFC, CHR 0xFD, CHR 0xFE]"

definition upper_table :: "(char \<times> char) list" where
  "upper_table =
     zip ''abcdefghijklmnopqrstuvwxyz'' ''ABCDEFGHIJKLMNOPQRSTUVWXYZ'' @
     zip [CHR 0xE0, CHR 0xE1, CHR 0xE2, CHR 0xE3, CHR 0xE4, CHR 0xE5, CHR 0xE6, CHR 0xE7, CHR 0xE8, CHR 0xE9,
          CHR 0xEA, CHR 0xEB, CHR 0xEC, CHR 0xED, CHR 0xEE, CHR 0xEF, CHR 0xF0, CHR 0xF1, CHR 0xF2, CHR 0xF3,
          CHR 0xF4, CHR 0xF5, CHR 0xF6, CHR 0xF8, CHR 0xF9, CHR 0xFA, CHR 0xFB, CHR 0xFC, CHR 0xFD, CHR 0xFE]
         [CHR 0xC0, CHR 0xC1, CHR 0xC2, CHR 0xC3, CHR 0xC4, CHR 0xC5, CHR 0xC6, CHR 0xC7, CHR 0xC8, CHR 0xC9,
          CHR 0xCA, CHR 0xCB, CHR 0xCC, CHR 0xCD, CHR 0xCE, CHR 0xCF, CHR 0xD0, CHR 0xD1, CHR 0xD2, CHR 0xD3,
          CHR 0xD4, CHR 0xD5, CHR 0xD6, CHR 0xD8, CHR 0xD9, CHR 0xDA, CHR 0xDB, CHR 0xDC, CHR 0xDD, CHR 0xDE]"

definition lower_char :: "char \<Rightarrow> char" where
  "lower_char c = (case map_of lower_table c of Some d \<Rightarrow> d | None \<Rightarrow> c)"

definition upper_char :: "char \<Rightarrow> char" where
  "upper_char c = (case map_of upper_table c of Some d \<Rightarrow> d | None \<Rightarrow> c)"

text \<open>\<^verbatim>\<open>s.lower()\<close> and \<^verbatim>\<open>s.upper()\<close>.\<close>

definition lower :: "string \<Rightarrow> string" where
  "lower s = map lower_char s"

definition upper :: "string \<Rightarrow> string" where
  "upper s = map upper_char s"

text \<open>\<^verbatim>\<open>s.startswith(p)\<close> and \<^verbatim>\<open>s.endswith(p)\<close>.\<close>

definition startswith :: "string \<Rightarrow> string \<Rightarrow> bool" where
  "startswith s p = (take (length p) s = p)"

definition endswith :: "string \<Rightarrow> string \<Rightarrow> bool" where
  "endswith s p = (length p \<le> length s \<and> drop (length s - length p) s = p)"

text \<open>\<^verbatim>\<open>s.split(c)\<close> for a one-character separator: never empty, keeps empty fields.\<close>

fun split_on :: "char \<Rightarrow> string \<Rightarrow> string list" where
  "split_on c [] = [[]]"
| "split_on c (x # xs) =
     (if x = c then [] # split_on c xs
      else (x # hd (split_on c xs)) # tl (split_on c xs))"

text \<open>\<^verbatim>\<open>sep.join(parts)\<close>.\<close>

fun join :: "string \<Rightarrow> string list \<Rightarrow> string" where
  "join sep [] = []"
| "join sep [p] = p"
| "join sep (p # q # ps) = p @ sep @ join sep (q # ps)"

text \<open>The characters below U+0100 for which \<^verbatim>\<open>str.isspace\<close> holds.\<close>

definition is_space :: "char \<Rightarrow> bool" where
  "is_space c = (c \<in> set [CHR '' '', CHR 0x09, CHR 0x0A, CHR 0x0B, CHR 0x0C, CHR 0x0D,
                           CHR 0x1C, CHR 0x1D, CHR 0x1E, CHR 0x1F, CHR 0x85, CHR 0xA0])"

text \<open>\<^verbatim>\<open>s.strip()\<close>.\<close>

definition strip :: "string \<Rightarrow> string" where
  "strip s = rev (dropWhile is_space (rev (dropWhile is_space s)))"

text \<open>\<^verbatim>\<open>s.split()\<close>: the maximal runs of non-space characters.\<close>

fun split_ws_aux :: "string \<Rightarrow> string \<Rightarrow> string list" where
  "split_ws_aux cur [] = (if cur = [] then [] else [cur])"
| "split_ws_aux cur (x # xs) =
     (if is_space x then (if cur = [] then split_ws_aux [] xs else cur # split_ws_aux [] xs)
      else split_ws_aux (cur @ [x]) xs)"

definition split_ws :: "string \<Rightarrow> string list" where
  "split_ws s = split_ws_aux [] s"

text \<open>\<^verbatim>\<open>k in d\<close> for a dictionary held as an association list in insertion order.\<close>

definition has_key :: "('k \<times> 'v) list \<Rightarrow> 'k \<Rightarrow> bool" where
  "has_key d k = (k \<in> set (map fst d))"

section \<open>The web terminal: \<^verbatim>\<open>AmigaTerminal\<close> of wsa.py\<close>

record terminal =
  current_dir :: string
  prompt :: string
  directories :: "(string \<times> string list) list"
  files :: "(string \<times> string) list"

record amiga_terminal = terminal +
  command_history :: "string list"

text \<open>
  What the program asks of its platform, taken as parameters:
  \<^verbatim>\<open>platform.system() == "Windows"\<close>, the \<^verbatim>\<open>os.path\<close> functions,
  \<^verbatim>\<open>os.listdir\<close>, \<^verbatim>\<open>os.sep\<close> and the clock.  \<^verbatim>\<open>os.path.exists\<close>,
  \<^verbatim>\<open>isdir\<close> and \<^verbatim>\<open>isfile\<close> answer False where the underlying call fails;
  \<^verbatim>\<open>os.listdir\<close> and \<^verbatim>\<open>os.path.getsize\<close> raise, and the exception is a value
  here.  \<open>amiga_date\<close> and \<open>amiga_day\<close> are \<^verbatim>\<open>_format_amiga_date\<close> and
  \<^verbatim>\<open>_format_amiga_day\<close> of the console, which format a modification time or the
  current time and catch every exception themselves.
\<close>

datatype listdir_result = Items "string list" | PermissionError string | OtherError string

record host =
  is_windows :: bool
  path_exists :: "string \<Rightarrow> bool"
  path_isdir :: "string \<Rightarrow> bool"
  path_isfile :: "string \<Rightarrow> bool"
  path_join :: "string \<Rightarrow> string \<Rightarrow> string"
  path_normpath :: "string \<Rightarrow> string"
  listdir :: "string \<Rightarrow> listdir_result"
  getsize :: "string \<Rightarrow> string + nat"
  os_sep :: char
  amiga_date :: "string option \<Rightarrow> bool \<Rightarrow> string"
  amiga_day :: "string option \<Rightarrow> string"

text \<open>\<^verbatim>\<open>get_prompt\<close>, and the assignment pair
  \<^verbatim>\<open>self.current_dir = p; self.prompt = self.get_prompt()\<close>.\<close>

definition get_prompt :: "'a terminal_scheme \<Rightarrow> string" where
  "get_prompt st = current_dir st @ ''> ''"

definition enter_dir :: "'a terminal_scheme \<Rightarrow> string \<Rightarrow> 'a terminal_scheme" where
  "enter_dir st p = st\<lparr>current_dir := p, prompt := p @ ''> ''\<rparr>"

text \<open>The backslash, which a string literal cannot hold.\<close>

abbreviation bslash :: char where
  "bslash \<equiv> CHR 0x5C"

text \<open>\<^verbatim>\<open>s.replace(a, b)\<close> for one-character \<^verbatim>\<open>a\<close> and \<^verbatim>\<open>b\<close>.\<close>

definition replace_char :: "char \<Rightarrow> char \<Rightarrow> string \<Rightarrow> string" where
  "replace_char a b s = map (\<lambda>c. if c = a then b else c) s"

text \<open>
  The translation of a \<^verbatim>\<open>DH0:\<close> path to a Windows path in wsa.py:
  \<^verbatim>\<open>sub_path = path[4:]\<close>, one leading slash dropped,
  joined to the drive root after every slash has become a backslash.
\<close>

definition win_fs_path :: "host \<Rightarrow> string \<Rightarrow> string" where
  "win_fs_path h p =
     (let sub_path = drop 4 p;
          sub_path = (if startswith sub_path ''/'' then drop 1 sub_path else sub_path)
      in path_join h (''C:'' @ [bslash]) (replace_char (CHR ''/'') bslash sub_path))"

text \<open>
  ``Try with trailing backslash if path doesn't exist'': the path that is probed after
  the retry.
\<close>

definition retry_backslash :: "host \<Rightarrow> string \<Rightarrow> string" where
  "retry_backslash h fs_path =
     (if \<not> path_exists h fs_path then
        (if \<not> endswith fs_path [bslash] \<and> \<not> endswith fs_path ''/'' then
           (if path_exists h (fs_path @ [bslash]) then fs_path @ [bslash] else fs_path)
         else fs_path)
      else fs_path)"

text \<open>
  The body of the two \<^verbatim>\<open>DH0:\<close> blocks of \<^verbatim>\<open>change_directory\<close> (absolute and
  relative), which differ only in the path they probe (\<open>p\<close>) and the one they report
  (\<open>shown\<close>).
\<close>

definition cd_dh0 :: "host \<Rightarrow> amiga_terminal \<Rightarrow> string \<Rightarrow> string \<Rightarrow> amiga_terminal \<times> string" where
  "cd_dh0 h st p shown =
     (let fs_path = retry_backslash h (win_fs_path h p) in
      if path_exists h fs_path \<and> path_isdir h fs_path then (enter_dir st p, '''')
      else if \<not> endswith p ''/'' \<and>
              path_exists h (win_fs_path h (p @ ''/'')) \<and> path_isdir h (win_fs_path h (p @ ''/''))
           then (enter_dir st (p @ ''/''), '''')
      else (st, ''Directory '' @ shown @ '' not found.\<newline>''))"

text \<open>The parent of the current directory, as the \<^verbatim>\<open>..\<close> branch computes it.\<close>

definition go_up :: "string \<Rightarrow> string" where
  "go_up cur =
     (let parts = split_on (CHR '':'') cur in
      if length parts > 1 \<and> parts ! 1 \<noteq> [] then
        (let parent_parts = split_on (CHR ''/'') (parts ! 1) in
         if length parent_parts > 1
         then parts ! 0 @ '':'' @ join ''/'' (butlast parent_parts)
         else parts ! 0 @ '':'')
      else ''SYS:'')"

definition change_directory :: "host \<Rightarrow> amiga_terminal \<Rightarrow> string \<Rightarrow> amiga_terminal \<times> string" where
  "change_directory h st path =
     (if upper path = ''DH0:'' then (enter_dir st ''DH0:'', '''')
      else if path = [] then (st, ''Usage: CD <directory>\<newline>'')
      else if path = ''..'' then
        (if current_dir st = ''SYS:'' then (st, ''Already at root directory.\<newline>'')
         else (enter_dir st (go_up (current_dir st)), ''''))
      else if CHR '':'' \<in> set path then
        (if startswith (upper path) ''DH0:'' \<and> is_windows h then cd_dh0 h st path path
         else if has_key (directories st) path then (enter_dir st path, '''')
         else (st, ''Directory '' @ path @ '' not found.\<newline>''))
      else if startswith (current_dir st) ''DH0:'' \<and> is_windows h then
        cd_dh0 h st
          (if current_dir st = ''DH0:'' then ''DH0:'' @ path else current_dir st @ ''/'' @ path)
          path
      else
        (let new_path = (if current_dir st = ''SYS:'' then ''SYS:'' @ path
                         else current_dir st @ ''/'' @ path) in
         if has_key (directories st) new_path then (enter_dir st new_path, '''')
         else if (case map_of (directories st) (current_dir st) of
                    Some ds \<Rightarrow> path \<in> set ds | None \<Rightarrow> False)
              then (enter_dir st new_path, '''')
         else (st, ''Directory '' @ path @ '' not found.\<newline>'')))"

subsection \<open>Directory listing of the web terminal\<close>

text \<open>Decimal rendering of a number, and the paddings \<^verbatim>\<open>{s:<n}\<close> and \<^verbatim>\<open>{s:>n}\<close>.\<close>

fun str_nat :: "nat \<Rightarrow> string" where
  "str_nat n = (if n < 10 then [''0123456789'' ! n]
                else str_nat (n div 10) @ [''0123456789'' ! (n mod 10)])"

declare str_nat.simps [simp del]

definition ljust :: "nat \<Rightarrow> string \<Rightarrow> string" where
  "ljust n s = s @ replicate (n - length s) (CHR '' '')"

definition rjust :: "nat \<Rightarrow> string \<Rightarrow> string" where
  "rjust n s = replicate (n - length s) (CHR '' '') @ s"

definition listing_header :: "string \<Rightarrow> string" where
  "listing_header path =
     ''Directory '' @ path @ ''\<newline>'' @ ''\<newline>'' @
     ''Name              Size  Protection  Date\<newline>'' @
     ''----              ----  ----------  ----\<newline>''"

definition dir_line :: "string \<Rightarrow> string" where
  "dir_line dir_name = ljust 18 (dir_name @ ''/'') @ ''DIR   drwx      01-Jan-85\<newline>''"

definition file_line :: "string \<Rightarrow> nat \<Rightarrow> string" where
  "file_line file_name file_size =
     ljust 18 file_name @ rjust 5 (str_nat file_size) @ ''  rwed      01-Jan-85\<newline>''"

definition listing_footer :: "nat \<Rightarrow> nat \<Rightarrow> string" where
  "listing_footer dir_count file_count =
     ''\<newline>'' @ str_nat dir_count @ '' DIR(s), '' @ str_nat file_count @ '' FILE(s)\<newline>''"

text \<open>
  The loop \<^verbatim>\<open>for file_path in self.files\<close> of the placeholder listing: a file is
  listed when its key is \<^verbatim>\<open>path + "/"\<close> followed by a name without a slash.  The
  accumulator is \<^verbatim>\<open>(output, file_count)\<close>.
\<close>

fun list_virtual_files :: "string \<Rightarrow> (string \<times> string) list \<Rightarrow> string \<times> nat \<Rightarrow> string \<times> nat" where
  "list_virtual_files path [] acc = acc"
| "list_virtual_files path ((file_path, file_content) # fs) (output, file_count) =
     (if startswith file_path (path @ ''/'') \<and>
         CHR ''/'' \<notin> set (drop (length path + 1) file_path)
      then list_virtual_files path fs
             (output @ file_line (drop (length path + 1) file_path) (length file_content),
              file_count + 1)
      else list_virtual_files path fs (output, file_count))"

text \<open>The placeholder listing (used for virtual devices and as the fallback of DH0:).\<close>

definition list_placeholder :: "amiga_terminal \<Rightarrow> string \<Rightarrow> string" where
  "list_placeholder st path =
     (let dirs = (case map_of (directories st) path of Some ds \<Rightarrow> ds | None \<Rightarrow> []);
          output = listing_header path @ concat (map dir_line dirs);
          (output, file_count) = list_virtual_files path (files st) (output, 0)
      in output @ listing_footer (length dirs) file_count)"

text \<open>
  The size shown for a host file: \<^verbatim>\<open>os.path.getsize\<close>, and 0 when it raises.
\<close>

definition shown_size :: "host \<Rightarrow> string \<Rightarrow> nat" where
  "shown_size h p = (case getsize h p of Inr n \<Rightarrow> n | Inl e \<Rightarrow> 0)"

text \<open>The listing of a host directory on Windows, once \<open>fs_path\<close> is known to be one.\<close>

definition list_host_dir :: "host \<Rightarrow> string \<Rightarrow> string \<Rightarrow> string" where
  "list_host_dir h path fs_path =
     (case listdir h fs_path of
        PermissionError e \<Rightarrow> ''Access denied to this directory.\<newline>''
      | OtherError e \<Rightarrow> ''Error reading directory: '' @ e @ ''\<newline>''
      | Items items \<Rightarrow>
          (let dirs = sort_key lower (filter (\<lambda>item. path_isdir h (path_join h fs_path item)) items);
               files = sort_key lower (filter (\<lambda>item. \<not> path_isdir h (path_join h fs_path item)) items)
           in listing_header path @
              concat (map dir_line dirs) @
              concat (map (\<lambda>file_name. file_line file_name (shown_size h (path_join h fs_path file_name))) files) @
              listing_footer (length dirs) (length files)))"

definition list_files :: "host \<Rightarrow> amiga_terminal \<Rightarrow> string \<Rightarrow> string" where
  "list_files h st path =
     (if startswith path ''DH0:'' then
        (if is_windows h then
           (let fs_path = retry_backslash h
                            (if path = ''DH0:'' then ''C:'' @ [bslash] else win_fs_path h path)
            in if path_exists h fs_path \<and> path_isdir h fs_path
               then list_host_dir h path fs_path
               else ''Directory '' @ path @ '' not found.\<newline>'')
         else list_placeholder st path)
      else if \<not> has_key (directories st) path then ''Directory '' @ path @ '' not found.\<newline>''
      else list_placeholder st path)"

subsection \<open>The interpreter of the web terminal\<close>

text \<open>
  \<^verbatim>\<open>execute_command\<close> returns text or the dictionary \<^verbatim>\<open>{"action": "clear"}\<close>.
\<close>

datatype result = Text string | Clear

text \<open>
  The commands that only build text and assign no attribute of the terminal are
  parameters; each returns its text or raises (\<open>Inl\<close> holds \<^verbatim>\<open>str(e)\<close>).  \<open>now\<close> is
  \<^verbatim>\<open>str(datetime.now())\<close>.
\<close>

record builtins =
  info_command :: "string + string"
  avail_command :: "string + string"
  status_command :: "string + string"
  mount_command :: "amiga_terminal \<Rightarrow> string + string"
  help_command :: "string + string"
  amiga_command :: "string + string"
  ping_command :: "string list \<Rightarrow> string + string"
  pattern_command :: "amiga_terminal \<Rightarrow> string list \<Rightarrow> string + string"
  now :: "string + string"

definition returning :: "amiga_terminal \<Rightarrow> string + string \<Rightarrow> amiga_terminal \<times> (string + result)" where
  "returning st r = (st, case r of Inl e \<Rightarrow> Inl e | Inr t \<Rightarrow> Inr (Text t))"

definition execute_command ::
  "host \<Rightarrow> builtins \<Rightarrow> amiga_terminal \<Rightarrow> string \<Rightarrow> amiga_terminal \<times> (string + result)" where
  "execute_command h b st command_text =
     (let parts = split_ws (strip command_text) in
      if parts = [] then (st, Inr (Text ''''))
      else
        (let cmd = lower (hd parts); args = tl parts in
         if endswith cmd '':'' \<and> upper cmd \<in> set (map (\<lambda>d. upper (fst d)) (directories st))
         then (case change_directory h st cmd of (st', out) \<Rightarrow> (st', Inr (Text out)))
         else
           (let st = st\<lparr>command_history := command_history st @ [command_text]\<rparr> in
            if cmd = ''dir'' then (st, Inr (Text (list_files h st (current_dir st))))
            else if cmd = ''cd'' then
              (case change_directory h st (join '' '' args) of (st', out) \<Rightarrow> (st', Inr (Text out)))
            else if cmd = ''info'' then returning st (info_command b)
            else if cmd = ''avail'' then returning st (avail_command b)
            else if cmd = ''status'' then returning st (status_command b)
            else if cmd = ''mount'' then returning st (mount_command b st)
            else if cmd = ''echo'' then (st, Inr (Text (join '' '' args @ ''\<newline>'')))
            else if cmd = ''date'' then
              returning st (case now b of Inl e \<Rightarrow> Inl e | Inr t \<Rightarrow> Inr (t @ ''\<newline>''))
            else if cmd = ''help'' then returning st (help_command b)
            else if cmd = ''amiga'' then returning st (amiga_command b)
            else if cmd = ''ping'' then returning st (ping_command b args)
            else if cmd = ''pattern'' then returning st (pattern_command b st args)
            else if cmd = ''cls'' \<or> cmd = ''clear'' then (st, Inr Clear)
            else (st, Inr (Text (''Command '' @ [CHR 0x27] @ cmd @ [CHR 0x27] @
                                 '' not found. Type '' @ [CHR 0x27] @ ''help'' @ [CHR 0x27] @
                                 '' for available commands.\<newline>''))))))"

subsection \<open>The startup-script runner of the web terminal\<close>

definition startup_error :: "string \<Rightarrow> string \<Rightarrow> string" where
  "startup_error line e =
     ''Error executing startup command '' @ [CHR 0x27] @ line @ [CHR 0x27] @ '': '' @ e @
     ''\<newline>''"

text \<open>
  The body of the \<^verbatim>\<open>try\<close> statement for one stripped line: the terminal after it, and
  either the exception it raised (\<open>Inl\<close>, holding \<^verbatim>\<open>str(e)\<close>) or the text it appends to
  \<^verbatim>\<open>output\<close>.  \<^verbatim>\<open>output += f() + "\n"\<close> appends nothing when \<^verbatim>\<open>f()\<close> raises.
\<close>

definition appending :: "amiga_terminal \<Rightarrow> string + string \<Rightarrow> amiga_terminal \<times> (string + string)" where
  "appending st r = (st, case r of Inl e \<Rightarrow> Inl e | Inr t \<Rightarrow> Inr (t @ ''\<newline>''))"

definition startup_try :: "host \<Rightarrow> builtins \<Rightarrow> amiga_terminal \<Rightarrow> string \<Rightarrow> amiga_terminal \<times> (string + string)" where
  "startup_try h b st line =
     (if startswith (lower line) ''echo '' then (st, Inr (drop 5 line @ ''\<newline>''))
      else
        (let parts = split_ws line in
         if parts = [] then (st, Inr '''')
         else
           (let cmd = lower (hd parts); args = join '' '' (tl parts) in
            if cmd = ''info'' then appending st (info_command b)
            else if cmd = ''avail'' then appending st (avail_command b)
            else if cmd = ''status'' then appending st (status_command b)
            else if cmd = ''mount'' then appending st (mount_command b st)
            else if cmd = ''dir'' then (st, Inr (list_files h st (current_dir st) @ ''\<newline>''))
            else if cmd = ''date'' then appending st (now b)
            else if cmd = ''echo'' then (st, Inr (args @ ''\<newline>''))
            else if cmd = ''help'' then appending st (help_command b)
            else if cmd = ''amiga'' then appending st (amiga_command b)
            else if cmd = ''ping'' \<and> args \<noteq> [] then appending st (ping_command b [args])
            else if cmd = ''pattern'' \<and> args \<noteq> [] then appending st (pattern_command b st [args])
            else if cmd = ''cd'' then
              (case change_directory h st args of
                 (st', result) \<Rightarrow> (st', Inr (if result \<noteq> [] then result @ ''\<newline>'' else '''')))
            else (st, Inr (''Startup command not recognized: '' @ line @ ''\<newline>'')))))"

text \<open>The \<^verbatim>\<open>try\<close> with its handler \<^verbatim>\<open>except Exception as e\<close>.\<close>

definition startup_line :: "host \<Rightarrow> builtins \<Rightarrow> amiga_terminal \<Rightarrow> string \<Rightarrow> amiga_terminal \<times> string" where
  "startup_line h b st line =
     (case startup_try h b st line of
        (st', Inl e) \<Rightarrow> (st', startup_error line e)
      | (st', Inr chunk) \<Rightarrow> (st', chunk))"

text \<open>The loop over the lines; the accumulator is the terminal and \<^verbatim>\<open>output\<close>.\<close>

fun run_startup_lines ::
  "host \<Rightarrow> builtins \<Rightarrow> string list \<Rightarrow> amiga_terminal \<times> string \<Rightarrow> amiga_terminal \<times> string" where
  "run_startup_lines h b [] acc = acc"
| "run_startup_lines h b (raw # rest) (st, output) =
     (let line = strip raw in
      if line = [] \<or> startswith line '';'' then run_startup_lines h b rest (st, output)
      else (case startup_line h b st line of
              (st', chunk) \<Rightarrow> run_startup_lines h b rest (st', output @ chunk)))"

definition run_startup_script ::
  "host \<Rightarrow> builtins \<Rightarrow> amiga_terminal \<Rightarrow> string \<Rightarrow> string \<Rightarrow> amiga_terminal \<times> string" where
  "run_startup_script h b st script_name content =
     run_startup_lines h b (split_on (CHR 0x0A) content)
       (st, ''Executing '' @ script_name @ ''...\<newline>'')"

subsection \<open>The terminal a session starts with\<close>

text \<open>
  The attributes \<^verbatim>\<open>__init__\<close> assigns where \<^verbatim>\<open>platform.system()\<close> is not Windows
  (placeholder content for DH0:).  The stored startup sequence holds comments only, so
  running it leaves them as they are.
\<close>

definition startup_sequence_text :: string where
  "startup_sequence_text =
     ''; AmigaOS-style startup sequence\<newline>'' @
     ''; This script runs when the WSA Terminal starts\<newline>\<newline>'' @
     ''; Mount additional volumes\<newline>; mount RAM: FROM RAM SIZE=1024\<newline>\<newline>'' @
     ''; Set environment variables\<newline>; setenv PATH C: SYS:S\<newline>\<newline>'' @
     ''; Run system tools\<newline>; execute SYS:Tools/Shell-Startup\<newline>''"

definition placeholder_dh0_files :: "(string \<times> string) list" where
  "placeholder_dh0_files =
     [(''DH0:/Windows/System32/kernel32.dll'', ''Windows kernel library''),
      (''DH0:/Windows/explorer.exe'', ''Windows Explorer''),
      (''DH0:/Program Files/'', ''Program Files directory''),
      (''DH0:/Users/'', ''Users directory'')]"

definition initial_terminal :: amiga_terminal where
  "initial_terminal =
     \<lparr>current_dir = ''SYS:'', prompt = ''SYS:> '',
      directories =
        [(''SYS:'', [''Prefs'', ''Tools'', ''L'', ''S'', ''C'', ''DEVS'', ''Fonts'', ''WBStartup'']),
         (''RAM:'', [''T'']),
         (''C:'', [''Info'', ''Avail'', ''Status'', ''Mount'', ''Ed'', ''Dir'', ''Cd'', ''Pattern'',
                  ''Date'', ''Echo'', ''Help'', ''Amiga'', ''Ping'']),
         (''DH0:'', [''Windows'', ''Program Files'', ''Users'', ''Documents and Settings''])],
      files =
        [(''SYS:Prefs/Env-Archive'', ''Environment variables archive''),
         (''SYS:Prefs/Env'', ''Current environment variables''),
         (''SYS:Tools/Shell-Startup'', ''Shell startup script''),
         (''SYS:S/Startup-Sequence'', startup_sequence_text),
         (''RAM:T/Temp-File'', ''Temporary file''),
         (''C:Info'', ''System information utility''),
         (''C:Avail'', ''List available commands''),
         (''C:Status'', ''Show system status''),
         (''C:Mount'', ''Mount volumes''),
         (''C:Ed'', ''Text editor''),
         (''C:Dir'', ''Directory listing''),
         (''C:Cd'', ''Change directory''),
         (''C:Pattern'', ''Pattern matching utility''),
         (''C:Date'', ''Show date and time''),
         (''C:Echo'', ''Echo text to terminal''),
         (''C:Help'', ''Display help information''),
         (''C:Amiga'', ''Amiga easter egg command''),
         (''C:Ping'', ''Network ping utility'')] @ placeholder_dh0_files,
      command_history = []\<rparr>"

subsection \<open>Platforms and commands to run the terminals on\<close>

text \<open>
  A host that is not Windows and where no path exists, and text commands that return
  fixed texts, except that \<^verbatim>\<open>info\<close> raises.
\<close>

definition plain_host :: host where
  "plain_host =
     \<lparr>is_windows = False, path_exists = (\<lambda>p. False), path_isdir = (\<lambda>p. False),
      path_isfile = (\<lambda>p. False), path_join = (\<lambda>a b. a @ ''/'' @ b),
      path_normpath = (\<lambda>p. p), listdir = (\<lambda>p. OtherError ''No such file or directory''),
      getsize = (\<lambda>p. Inl ''No such file or directory''), os_sep = CHR ''/'',
      amiga_date = (\<lambda>p full. if full then ''01-Jan-85 12:00:00'' else ''01-Jan-85''),
      amiga_day = (\<lambda>p. ''Monday'')\<rparr>"

definition sample_builtins :: builtins where
  "sample_builtins =
     \<lparr>info_command = Inl ''boom'', avail_command = Inr ''avail'', status_command = Inr ''status'',
      mount_command = (\<lambda>st. Inr ''mount''), help_command = Inr ''help'',
      amiga_command = Inr ''amiga'', ping_command = (\<lambda>args. Inr ''ping''),
      pattern_command = (\<lambda>st args. Inr ''pattern''), now = Inr ''today''\<rparr>"

text \<open>
  A Windows host whose drive root holds the directories \<^verbatim>\<open>Zed\<close> and \<^verbatim>\<open>Apps\<close> and the
  files \<^verbatim>\<open>b.txt\<close> (7 bytes) and \<^verbatim>\<open>a.TXT\<close> (5 bytes), and where a directory
  \<^verbatim>\<open>Games\<close> is found only under its name with a trailing backslash.
\<close>

definition drive_root :: string where
  "drive_root = ''C:'' @ [bslash]"

definition games_path :: string where
  "games_path = drive_root @ ''Games''"

definition windows_host :: host where
  "windows_host =
     \<lparr>is_windows = True,
      path_exists = (\<lambda>p. p \<in> set [drive_root, drive_root @ ''Zed'', drive_root @ ''Apps'',
                                     drive_root @ ''b.txt'', drive_root @ ''a.TXT'',
                                     games_path @ [bslash]]),
      path_isdir = (\<lambda>p. p \<in> set [drive_root, drive_root @ ''Zed'', drive_root @ ''Apps'',
                                    games_path @ [bslash]]),
      path_isfile = (\<lambda>p. p \<in> set [drive_root @ ''b.txt'', drive_root @ ''a.TXT'']),
      path_join = (\<lambda>a b. a @ b),
      path_normpath = (\<lambda>p. p),
      listdir = (\<lambda>p. if p = drive_root then Items [''b.txt'', ''Zed'', ''a.TXT'', ''Apps'']
                     else OtherError ''The system cannot find the path specified''),
      getsize = (\<lambda>p. if p = drive_root @ ''b.txt'' then Inr 7
                     else if p = drive_root @ ''a.TXT'' then Inr 5
                     else Inl ''The system cannot find the file specified''),
      os_sep = bslash,
      amiga_date = (\<lambda>p full. if full then ''01-Jan-85 12:00:00'' else ''01-Jan-85''),
      amiga_day = (\<lambda>p. ''Monday'')\<rparr>"

subsection \<open>A session of the web terminal\<close>

text \<open>
  The message loop of \<^verbatim>\<open>websocket_handler\<close> calls \<^verbatim>\<open>execute_command\<close> once for each
  command it receives, on the same terminal (an exception is reported to the client and
  the loop goes on).
\<close>

fun run_commands :: "host \<Rightarrow> builtins \<Rightarrow> amiga_terminal \<Rightarrow> string list \<Rightarrow> amiga_terminal" where
  "run_commands h b st [] = st"
| "run_commands h b st (c # cs) = run_commands h b (fst (execute_command h b st c)) cs"

section \<open>The console terminal: \<^verbatim>\<open>WSAConsoleTerminal\<close> of wsa\_console.py\<close>

text \<open>
  An entry of \<^verbatim>\<open>mounted_shared_folders\<close> (keys \<^verbatim>\<open>path\<close>, \<^verbatim>\<open>label\<close>, \<^verbatim>\<open>emulator\<close>,
  \<^verbatim>\<open>config\<close>, \<^verbatim>\<open>access\<close>) and the terminal.  What the console prints is returned as
  the list of the printed lines.
\<close>

record shared_info =
  shared_path :: string
  shared_label :: string
  shared_emulator :: string
  shared_config :: string
  shared_access :: string

record console_terminal = terminal +
  mounted_shared_folders :: "(string \<times> shared_info) list"

text \<open>\<^verbatim>\<open>is_wsl = os.path.exists("/mnt/c")\<close>.\<close>

definition is_wsl :: "host \<Rightarrow> bool" where
  "is_wsl h = path_exists h ''/mnt/c''"

text \<open>
  The host path of a \<^verbatim>\<open>DH0:\<close> path in the console: \<^verbatim>\<open>path[4:]\<close>, one leading slash
  dropped, joined to \<^verbatim>\<open>/mnt/c\<close> under WSL and to the drive root otherwise, then
  \<^verbatim>\<open>os.path.normpath\<close>.
\<close>

definition console_fs_path :: "host \<Rightarrow> string \<Rightarrow> string" where
  "console_fs_path h p =
     (let sub_path = drop 4 p;
          sub_path = (if startswith sub_path ''/'' then drop 1 sub_path else sub_path)
      in path_normpath h
           (if is_wsl h then path_join h ''/mnt/c'' (replace_char bslash (CHR ''/'') sub_path)
            else path_join h (''C:'' @ [bslash]) (replace_char (CHR ''/'') bslash sub_path)))"

text \<open>The device a path is looked up under in \<^verbatim>\<open>mounted_shared_folders\<close>.\<close>

definition mount_key :: "string \<Rightarrow> string" where
  "mount_key p =
     (let device = upper (if CHR ''/'' \<in> set p then hd (split_on (CHR ''/'') p) else p)
      in if \<not> endswith device '':'' then device @ '':'' else device)"

text \<open>The host path of a path on a mounted shared folder, below \<open>base_path\<close>.\<close>

definition shared_fs_path :: "host \<Rightarrow> string \<Rightarrow> string \<Rightarrow> string \<Rightarrow> string" where
  "shared_fs_path h base_path device p =
     (let sub_path = drop (length device) p;
          sub_path = (if startswith sub_path ''/'' then drop 1 sub_path else sub_path)
      in path_normpath h (path_join h base_path (replace_char (CHR ''/'') (os_sep h) sub_path)))"

definition change_shared_folder_directory ::
  "host \<Rightarrow> console_terminal \<Rightarrow> shared_info \<Rightarrow> string \<Rightarrow> string \<Rightarrow> console_terminal \<times> string" where
  "change_shared_folder_directory h st info p device =
     (if p = device then (enter_dir st device, '''')
      else
        (let fs_path = shared_fs_path h (shared_path info) device p in
         if \<not> path_exists h fs_path \<or> \<not> path_isdir h fs_path
         then (st, ''Directory '' @ p @ '' not found.'')
         else (enter_dir st p, '''')))"

text \<open>\<^verbatim>\<open>_change_directory\<close>.\<close>

definition console_change_directory :: "host \<Rightarrow> console_terminal \<Rightarrow> string \<Rightarrow> console_terminal \<times> string" where
  "console_change_directory h st path =
     (case map_of (mounted_shared_folders st) (mount_key path) of
        Some info \<Rightarrow> change_shared_folder_directory h st info path (mount_key path)
      | None \<Rightarrow>
     (if upper path = ''DH0:'' then (enter_dir st ''DH0:'', '''')
      else if path = ''..'' \<or> startswith path ''../'' then
        (if current_dir st = ''SYS:'' then (st, ''Already at root directory.'')
         else if startswith path ''../'' then
           (let target_path = drop 3 path; parent_dir = go_up (current_dir st) in
            if target_path \<noteq> [] then
              (let new_path = (if endswith parent_dir '':'' then parent_dir @ target_path
                               else parent_dir @ ''/'' @ target_path) in
               if has_key (directories st) new_path then (enter_dir st new_path, '''')
               else (st, ''Directory '' @ target_path @ '' not found.''))
            else (enter_dir st parent_dir, ''''))
         else (enter_dir st (go_up (current_dir st)), ''''))
      else if CHR '':'' \<in> set path then
        (if startswith (upper path) ''DH0:'' then
           (if (is_wsl h \<or> is_windows h) \<and>
               path_exists h (console_fs_path h path) \<and> path_isdir h (console_fs_path h path)
            then (enter_dir st path, '''')
            else (st, ''Directory '' @ path @ '' not found.''))
         else if has_key (directories st) path then (enter_dir st path, '''')
         else (st, ''Directory '' @ path @ '' not found.''))
      else if startswith (upper (current_dir st)) ''DH0:'' then
        (let new_path = (if upper (current_dir st) = ''DH0:'' then ''DH0:/'' @ path
                         else current_dir st @ ''/'' @ path) in
         if (is_wsl h \<or> is_windows h) \<and>
            path_exists h (console_fs_path h new_path) \<and> path_isdir h (console_fs_path h new_path)
         then (enter_dir st new_path, '''')
         else (st, ''Directory '' @ path @ '' not found.''))
      else
        (let new_path = (if current_dir st = ''SYS:'' then ''SYS:'' @ path
                         else current_dir st @ ''/'' @ path) in
         if has_key (directories st) new_path then (enter_dir st new_path, '''')
         else if (case map_of (directories st) (current_dir st) of
                    Some ds \<Rightarrow> path \<in> set ds | None \<Rightarrow> False)
              then (enter_dir st new_path, '''')
         else (st, ''Directory '' @ path @ '' not found.''))))"

text \<open>\<^verbatim>\<open>do_cd\<close>: the handler of the \<^verbatim>\<open>cd\<close> command.\<close>

definition do_cd :: "host \<Rightarrow> console_terminal \<Rightarrow> string \<Rightarrow> console_terminal \<times> string list" where
  "do_cd h st arg =
     (if arg = [] then (st, [''Current directory: '' @ current_dir st])
      else (case console_change_directory h st arg of
              (st', result) \<Rightarrow> (st', if result \<noteq> [] then [result] else [])))"

text \<open>The dictionary \<^verbatim>\<open>logical_assignments\<close> of \<^verbatim>\<open>precmd\<close> and \<^verbatim>\<open>_resolve_path\<close>.\<close>

definition logical_assignments :: "(string \<times> string) list" where
  "logical_assignments =
     [(''S:'', ''SYS:S''), (''L:'', ''SYS:L''), (''DEVS:'', ''SYS:DEVS''),
      (''FONTS:'', ''SYS:Fonts''), (''T:'', ''RAM:T'')]"

text \<open>
  \<^verbatim>\<open>precmd\<close> rewrites a line before it is dispatched.  The membership test and the loop
  over the device names together pick the first device whose upper-case form is the
  upper-case line.
\<close>

definition precmd :: "console_terminal \<Rightarrow> string \<Rightarrow> string" where
  "precmd st line =
     (if line \<noteq> [] \<and> endswith (upper line) '':'' \<and> CHR '':'' \<in> set line then
        (case map_of logical_assignments (upper line) of
           Some actual \<Rightarrow> ''cd '' @ actual
         | None \<Rightarrow>
             (case find (\<lambda>actual_device. upper actual_device = upper line)
                        (map fst (directories st)) of
                Some actual_device \<Rightarrow> ''cd '' @ actual_device
              | None \<Rightarrow> line))
      else line)"

text \<open>\<^verbatim>\<open>_resolve_path\<close>.\<close>

definition resolve_path :: "console_terminal \<Rightarrow> string \<Rightarrow> string" where
  "resolve_path st path =
     (if path = [] then current_dir st
      else if CHR '':'' \<in> set path then
        (case find (\<lambda>(logical, actual). startswith (upper path) logical) logical_assignments of
           Some (logical, actual) \<Rightarrow>
             (let remaining_path = drop (length logical) path in
              if remaining_path \<noteq> [] then actual @ ''/'' @ remaining_path else actual)
         | None \<Rightarrow> path)
      else if upper (current_dir st) = ''DH0:'' then ''DH0:/'' @ path
      else if startswith (upper (current_dir st)) ''DH0:'' then current_dir st @ ''/'' @ path
      else if endswith (current_dir st) '':'' then current_dir st @ path
      else current_dir st @ ''/'' @ path)"

subsection \<open>Directory listing of the console\<close>

text \<open>The lines \<^verbatim>\<open>_list_files\<close> prints: header, directory entry, file entry, footer.\<close>

definition dir_header :: "string \<Rightarrow> string \<Rightarrow> string \<Rightarrow> string" where
  "dir_header path day_name header_date =
     ''Directory '' @ [CHR 0x22] @ path @ [CHR 0x22] @ '' on '' @ day_name @ '' '' @ header_date"

definition dir_entry :: "string \<Rightarrow> string \<Rightarrow> string" where
  "dir_entry dir_name date_str =
     '' '' @ ljust 22 dir_name @ '' (dir)    ----rwed     '' @ date_str"

definition file_entry :: "string \<Rightarrow> nat \<Rightarrow> string \<Rightarrow> string \<Rightarrow> string" where
  "file_entry file_name file_size flags date_str =
     '' '' @ ljust 22 file_name @ '' '' @ rjust 7 (str_nat file_size) @ ''  '' @ flags @
     ''     '' @ date_str"

definition dir_footer :: "nat \<Rightarrow> nat \<Rightarrow> nat \<Rightarrow> string" where
  "dir_footer total_files dir_count total_bytes =
     str_nat total_files @ '' files - '' @ str_nat dir_count @ '' directories - '' @
     str_nat total_bytes @ '' bytes used''"

text \<open>
  The loop \<^verbatim>\<open>for file_path in self.files\<close> over the virtual files below \<open>path_prefix\<close>
  (which is \<^verbatim>\<open>path + "/"\<close>): a file is listed when the rest of its key has no slash.
  The accumulator is the printed lines, \<^verbatim>\<open>file_count\<close> and \<^verbatim>\<open>total_bytes\<close>.
\<close>

fun virtual_file_loop ::
  "host \<Rightarrow> string \<Rightarrow> (string \<times> string) list \<Rightarrow> string list \<times> nat \<times> nat \<Rightarrow> string list \<times> nat \<times> nat" where
  "virtual_file_loop h path_prefix [] acc = acc"
| "virtual_file_loop h path_prefix ((file_path, file_content) # fs) (out, file_count, total_bytes) =
     (if startswith file_path path_prefix \<and>
         CHR ''/'' \<notin> set (drop (length path_prefix) file_path)
      then virtual_file_loop h path_prefix fs
             (out @ [file_entry (drop (length path_prefix) file_path) (length file_content)
                       ''----rwed'' (amiga_date h None True)],
              file_count + 1, total_bytes + length file_content)
      else virtual_file_loop h path_prefix fs (out, file_count, total_bytes))"

text \<open>The listing of a virtual directory that is a key of \<^verbatim>\<open>self.directories\<close>.\<close>

definition list_virtual_dir :: "host \<Rightarrow> console_terminal \<Rightarrow> string \<Rightarrow> string list" where
  "list_virtual_dir h st path =
     (let dirs = (case map_of (directories st) path of Some ds \<Rightarrow> ds | None \<Rightarrow> []);
          out = dir_header path (amiga_day h None) (amiga_date h None False) #
                map (\<lambda>dir_name. dir_entry dir_name (amiga_date h None True)) dirs;
          (out, file_count, total_bytes) = virtual_file_loop h (path @ ''/'') (files st) (out, 0, 0);
          total_files = length dirs + file_count
      in out @ [dir_footer total_files (length dirs) total_bytes])"

text \<open>
  The placeholder listing of a \<^verbatim>\<open>DH0:\<close> path; its byte total is the separate sum
  over the same files.
\<close>

definition list_dh0_placeholder :: "host \<Rightarrow> console_terminal \<Rightarrow> string \<Rightarrow> string list" where
  "list_dh0_placeholder h st path =
     (let dirs = (case map_of (directories st) path of Some ds \<Rightarrow> ds | None \<Rightarrow> []);
          out = dir_header path (amiga_day h None) (amiga_date h None False) #
                map (\<lambda>dir_name. dir_entry dir_name (amiga_date h None True)) dirs;
          (out, file_count, counted_bytes) = virtual_file_loop h (path @ ''/'') (files st) (out, 0, 0);
          total_files = length dirs + file_count;
          total_bytes = sum_list (map (\<lambda>(fp, content). length content)
                          (filter (\<lambda>(fp, content). startswith fp (path @ ''/'') \<and>
                                     CHR ''/'' \<notin> set (drop (length path + 1) fp)) (files st)))
      in out @ [dir_footer total_files (length dirs) total_bytes])"

text \<open>
  The listing of the commands of \<^verbatim>\<open>C:\<close>: every registered command as a file (of its
  stored content's length, or 1024), then the other files directly in \<^verbatim>\<open>C:\<close>.  The code
  has it twice, for \<^verbatim>\<open>C:\<close> (flags \<^verbatim>\<open>---xrwed\<close>) and for \<^verbatim>\<open>SYS:C\<close> (flags
  \<^verbatim>\<open>----rwed\<close>); the tests \<^verbatim>\<open>file_path != "C:"\<close> of the first and
  \<^verbatim>\<open>file_name\<close> non-empty of the second are the same test.
\<close>

fun command_loop ::
  "host \<Rightarrow> (string \<times> string) list \<Rightarrow> string \<Rightarrow> string list \<Rightarrow> string list \<times> nat \<times> nat \<Rightarrow> string list \<times> nat \<times> nat" where
  "command_loop h fs flags [] acc = acc"
| "command_loop h fs flags (cmd_name # rest) (out, file_count, total_bytes) =
     (let file_size = (case map_of fs (''C:'' @ cmd_name) of Some content \<Rightarrow> length content
                       | None \<Rightarrow> 1024)
      in command_loop h fs flags rest
           (out @ [file_entry cmd_name file_size flags (amiga_date h None True)],
            file_count + 1, total_bytes + file_size))"

fun other_command_files ::
  "host \<Rightarrow> string list \<Rightarrow> (string \<times> string) list \<Rightarrow> string list \<times> nat \<times> nat \<Rightarrow> string list \<times> nat \<times> nat" where
  "other_command_files h command_names [] acc = acc"
| "other_command_files h command_names ((file_path, file_content) # fs) (out, file_count, total_bytes) =
     (if startswith file_path ''C:'' \<and> drop 2 file_path \<noteq> [] \<and>
         CHR ''/'' \<notin> set (drop 2 file_path) \<and> drop 2 file_path \<notin> set command_names
      then other_command_files h command_names fs
             (out @ [file_entry (drop 2 file_path) (length file_content) ''----rwed''
                       (amiga_date h None True)],
              file_count + 1, total_bytes + length file_content)
      else other_command_files h command_names fs (out, file_count, total_bytes))"

definition list_commands :: "host \<Rightarrow> console_terminal \<Rightarrow> string \<Rightarrow> string \<Rightarrow> string list" where
  "list_commands h st path flags =
     (let command_names = (case map_of (directories st) ''C:'' of Some ds \<Rightarrow> ds | None \<Rightarrow> []);
          out = [dir_header path (amiga_day h None) (amiga_date h None False)];
          acc = command_loop h (files st) flags command_names (out, 0, 0);
          (out, file_count, total_bytes) = other_command_files h command_names (files st) acc
      in out @ [str_nat file_count @ '' files - 0 directories - '' @ str_nat total_bytes @
                '' bytes used''])"

text \<open>The listing of a subdirectory of \<^verbatim>\<open>SYS:\<close> that is no key of \<^verbatim>\<open>self.directories\<close>.\<close>

definition list_sys_subdir :: "host \<Rightarrow> console_terminal \<Rightarrow> string \<Rightarrow> string list" where
  "list_sys_subdir h st path =
     (let out = [dir_header path (amiga_day h None) (amiga_date h None False)];
          (out, file_count, total_bytes) = virtual_file_loop h (path @ ''/'') (files st) (out, 0, 0)
      in out @ [str_nat file_count @ '' files - 0 directories - '' @ str_nat total_bytes @
                '' bytes used''])"

text \<open>
  Host directories.  The entries of \<^verbatim>\<open>os.listdir\<close> are split by \<^verbatim>\<open>os.path.isdir\<close> and
  each part is sorted with \<^verbatim>\<open>sort(key=str.lower)\<close>, which is stable.
\<close>

definition host_dirs :: "host \<Rightarrow> string \<Rightarrow> string list \<Rightarrow> string list" where
  "host_dirs h fs_path items =
     sort_key lower (filter (\<lambda>item. path_isdir h (path_join h fs_path item)) items)"

definition host_files :: "host \<Rightarrow> string \<Rightarrow> string list \<Rightarrow> string list" where
  "host_files h fs_path items =
     sort_key lower (filter (\<lambda>item. \<not> path_isdir h (path_join h fs_path item)) items)"

definition host_dir_lines :: "host \<Rightarrow> string \<Rightarrow> string list \<Rightarrow> string list" where
  "host_dir_lines h fs_path dirs =
     map (\<lambda>dir_name. dir_entry dir_name (amiga_date h (Some (path_join h fs_path dir_name)) True)) dirs"

definition host_file_lines :: "host \<Rightarrow> string \<Rightarrow> string list \<Rightarrow> string list" where
  "host_file_lines h fs_path fs =
     map (\<lambda>file_name. file_entry file_name (shown_size h (path_join h fs_path file_name))
                         ''----rwed'' (amiga_date h (Some (path_join h fs_path file_name)) True)) fs"

text \<open>
  \<^verbatim>\<open>sum(os.path.getsize(p) for f in files if os.path.isfile(p))\<close> of the \<^verbatim>\<open>DH0:\<close>
  listing, where \<^verbatim>\<open>getsize\<close> is not guarded: the first exception ends the sum.
\<close>

fun sum_file_sizes :: "host \<Rightarrow> string \<Rightarrow> string list \<Rightarrow> string + nat" where
  "sum_file_sizes h fs_path [] = Inr 0"
| "sum_file_sizes h fs_path (f # fs) =
     (if path_isfile h (path_join h fs_path f) then
        (case getsize h (path_join h fs_path f) of
           Inl e \<Rightarrow> Inl e
         | Inr n \<Rightarrow> (case sum_file_sizes h fs_path fs of Inl e \<Rightarrow> Inl e | Inr m \<Rightarrow> Inr (n + m)))
      else sum_file_sizes h fs_path fs)"

text \<open>
  The byte total of the shared-folder listing, where each \<^verbatim>\<open>getsize\<close> is guarded and a
  file whose size cannot be read adds nothing.
\<close>

definition sum_shown_sizes :: "host \<Rightarrow> string \<Rightarrow> string list \<Rightarrow> nat" where
  "sum_shown_sizes h fs_path fs = sum_list (map (\<lambda>f. shown_size h (path_join h fs_path f)) fs)"

definition list_shared_folder_files ::
  "host \<Rightarrow> shared_info \<Rightarrow> string \<Rightarrow> string \<Rightarrow> string list" where
  "list_shared_folder_files h info path device =
     (let fs_path = (if path = device then path_normpath h (shared_path info)
                     else shared_fs_path h (shared_path info) device path) in
      if \<not> path_exists h fs_path \<or> \<not> path_isdir h fs_path
      then [''Directory '' @ path @ '' not found.'']
      else
        (let head = [dir_header path (amiga_day h (Some fs_path)) (amiga_date h (Some fs_path) False),
                     ''('' @ upper (shared_emulator info) @ '' Shared Folder: '' @ [CHR 0x22] @
                     shared_label info @ [CHR 0x22] @ '' from '' @ shared_config info @ '')'']
         in case listdir h fs_path of
              PermissionError e \<Rightarrow> head @ [''Access denied to this directory.'']
            | OtherError e \<Rightarrow> head @ [''Error reading directory: '' @ e]
            | Items items \<Rightarrow>
                (let dirs = host_dirs h fs_path items; fs = host_files h fs_path items in
                 head @ host_dir_lines h fs_path dirs @ host_file_lines h fs_path fs @
                 [dir_footer (length dirs + length fs) (length dirs) (sum_shown_sizes h fs_path fs) @
                  (if shared_access info = ''ro'' then '' (Read-Only)'' else '''')])))"

text \<open>
  The \<^verbatim>\<open>DH0:\<close> branch on a host directory: the host path that is probed, and the
  listing.  When the unguarded byte total raises, the lines printed so far are followed
  by the error line and the placeholder listing.
\<close>

definition dh0_list_path :: "host \<Rightarrow> string \<Rightarrow> string" where
  "dh0_list_path h path =
     path_normpath h
       (if upper path = ''DH0:''
        then (if is_wsl h then ''/mnt/c'' else ''C:'' @ [bslash])
        else (let sub_path = drop 4 path;
                  sub_path = (if startswith sub_path ''/'' then drop 1 sub_path else sub_path)
              in if is_wsl h
                 then path_join h ''/mnt/c'' (replace_char bslash (CHR ''/'') sub_path)
                 else path_join h (''C:'' @ [bslash]) (replace_char (CHR ''/'') bslash sub_path)))"

definition list_dh0_host :: "host \<Rightarrow> console_terminal \<Rightarrow> string \<Rightarrow> string list" where
  "list_dh0_host h st path =
     (let fs_path = dh0_list_path h path in
      if path_exists h fs_path \<and> path_isdir h fs_path then
        (let head = [dir_header path (amiga_day h (Some fs_path)) (amiga_date h (Some fs_path) False)]
         in case listdir h fs_path of
              PermissionError e \<Rightarrow> head @ [''Access denied to this directory.'']
            | OtherError e \<Rightarrow> head @ [''Error reading directory: '' @ e]
            | Items items \<Rightarrow>
                (let dirs = host_dirs h fs_path items; fs = host_files h fs_path items;
                     out = head @ host_dir_lines h fs_path dirs @ host_file_lines h fs_path fs
                 in case sum_file_sizes h fs_path fs of
                      Inr total_bytes \<Rightarrow>
                        out @ [dir_footer (length dirs + length fs) (length dirs) total_bytes]
                    | Inl e \<Rightarrow>
                        out @ [''Error accessing directory '' @ path @ '': '' @ e] @
                        list_dh0_placeholder h st path))
      else [''Directory '' @ path @ '' not found.''])"

text \<open>
  \<^verbatim>\<open>_list_files(path)\<close>, from the point where \<^verbatim>\<open>path\<close> has its final value.  What
  is returned is the list of printed lines.
\<close>

definition list_resolved :: "host \<Rightarrow> console_terminal \<Rightarrow> string \<Rightarrow> string list" where
  "list_resolved h st path =
     (case map_of (mounted_shared_folders st) (mount_key path) of
        Some info \<Rightarrow> list_shared_folder_files h info path (mount_key path)
      | None \<Rightarrow>
          if startswith (upper path) ''DH0:'' then
            (if is_wsl h \<or> is_windows h then list_dh0_host h st path
             else list_dh0_placeholder h st path)
          else if path = ''C:'' then list_commands h st path ''---xrwed''
          else if \<not> has_key (directories st) path then
            (if CHR '':'' \<in> set path \<and>
                takeWhile (\<lambda>c. c \<noteq> CHR '':'') path @ '':'' = ''SYS:'' \<and>
                tl (dropWhile (\<lambda>c. c \<noteq> CHR '':'') path) \<in>
                  set (case map_of (directories st) ''SYS:'' of Some ds \<Rightarrow> ds | None \<Rightarrow> [])
             then (if tl (dropWhile (\<lambda>c. c \<noteq> CHR '':'') path) = ''C''
                   then list_commands h st path ''----rwed''
                   else list_sys_subdir h st path)
             else [''Directory '' @ path @ '' not found.''])
          else list_virtual_dir h st path)"

text \<open>
  \<^verbatim>\<open>_list_files(path=None)\<close>: the current directory when called without an argument
  (\<open>None\<close>), and the resolved argument otherwise.
\<close>

definition console_list_files :: "host \<Rightarrow> console_terminal \<Rightarrow> string option \<Rightarrow> string list" where
  "console_list_files h st arg =
     list_resolved h st (case arg of None \<Rightarrow> current_dir st | Some p \<Rightarrow> resolve_path st p)"

text \<open>\<^verbatim>\<open>do_dir\<close>: the handler of the \<^verbatim>\<open>dir\<close> command.\<close>

definition do_dir :: "host \<Rightarrow> console_terminal \<Rightarrow> string \<Rightarrow> string list" where
  "do_dir h st arg =
     (if strip arg \<noteq> [] then console_list_files h st (Some (resolve_path st (strip arg)))
      else console_list_files h st None)"

text \<open>
  \<^verbatim>\<open>_real_file_exists\<close>: the existence check of the file commands for a \<^verbatim>\<open>DH0:\<close>
  path.
\<close>

definition real_file_exists :: "host \<Rightarrow> string \<Rightarrow> bool" where
  "real_file_exists h amiga_path =
     (if \<not> startswith amiga_path ''DH0:'' then False
      else if \<not> (is_wsl h \<or> is_windows h) then False
      else path_exists h (console_fs_path h amiga_path) \<and>
           path_isfile h (console_fs_path h amiga_path))"

subsection \<open>The console a session starts with\<close>

text \<open>
  The attributes \<^verbatim>\<open>WSAConsoleTerminal.__init__\<close> assigns where
  \<^verbatim>\<open>platform.system()\<close> is not Windows, with no emulator folder mounted.
\<close>

definition initial_console :: console_terminal where
  "initial_console =
     \<lparr>current_dir = ''SYS:'', prompt = ''SYS:> '',
      directories =
        [(''SYS:'', [''Prefs'', ''Tools'', ''L'', ''S'', ''C'', ''DEVS'', ''Fonts'', ''WBStartup'']),
         (''SYS:S'', []), (''SYS:L'', []), (''SYS:DEVS'', []), (''SYS:Fonts'', []),
         (''SYS:Prefs'', [''Env-Archive'', ''Env'']),
         (''SYS:Prefs/Env-Archive'', []), (''SYS:Prefs/Env'', []),
         (''RAM:'', [''T'']), (''RAM:T'', []),
         (''C:'', [''Info'', ''Avail'', ''Status'', ''Mount'', ''Ed'', ''Dir'', ''Cd'', ''Pattern'',
                  ''Date'', ''Echo'', ''Help'', ''Amiga'', ''Ping'', ''WinUAE'', ''Say'', ''Guru'']),
         (''DH0:'', [''Windows'', ''Program Files'', ''Users'', ''Documents and Settings''])],
      files =
        [(''SYS:Prefs/Env-Archive/PATH'', ''C: SYS:S SYS:C''),
         (''SYS:Prefs/Env-Archive/SHELL'', ''WSA Terminal''),
         (''SYS:Prefs/Env/PATH'', ''C: SYS:S SYS:C''),
         (''SYS:Prefs/Env/SHELL'', ''WSA Terminal''),
         (''SYS:Tools/Shell-Startup'', ''Shell startup script''),
         (''SYS:S/Startup-Sequence'', startup_sequence_text),
         (''RAM:T/Temp-File'', ''Temporary file''),
         (''C:Info'', ''System information utility''),
         (''C:Avail'', ''List available commands''),
         (''C:Status'', ''Show system status''),
         (''C:Mount'', ''Mount volumes''),
         (''C:Ed'', ''Text editor''),
         (''C:Dir'', ''Directory listing''),
         (''C:Cd'', ''Change directory''),
         (''C:Pattern'', ''Pattern matching utility''),
         (''C:Date'', ''Show date and time''),
         (''C:Echo'', ''Echo text to terminal''),
         (''C:Help'', ''Display help information''),
         (''C:Amiga'', ''Amiga easter egg command''),
         (''C:Ping'', ''Network ping utility''),
         (''C:WinUAE'', ''Launch WinUAE Amiga emulator''),
         (''C:Say'', ''Text-to-speech synthesis''),
         (''C:Guru'', ''Guru Meditation error demo'')] @ placeholder_dh0_files,
      mounted_shared_folders = []\<rparr>"

subsection \<open>The virtual files a listing shows\<close>

text \<open>
  The entries of \<^verbatim>\<open>self.files\<close> that the virtual listing loops of both terminals
  select for \<open>path\<close>: the key is \<^verbatim>\<open>path + "/"\<close> followed by a name without a slash.
\<close>

definition direct_files :: "string \<Rightarrow> (string \<times> string) list \<Rightarrow> (string \<times> string) list" where
  "direct_files path fs =
     filter (\<lambda>(file_path, content). startswith file_path (path @ ''/'') \<and>
                CHR ''/'' \<notin> set (drop (length path + 1) file_path)) fs"

subsection \<open>The startup-script runner of the console\<close>

text \<open>
  The command handlers of the console are reached by name: \<open>handler c cmd\<close> is the
  method \<^verbatim>\<open>do_<cmd>\<close> when \<^verbatim>\<open>hasattr(self, "do_" + cmd)\<close> holds.  Run with its
  standard output redirected, a method gives the terminal after it and either the
  exception it raised (\<open>Inl\<close>, holding \<^verbatim>\<open>str(e)\<close>) or the text it wrote.
  \<open>console_now\<close> is \<^verbatim>\<open>str(datetime.now())\<close>.
\<close>

record console_commands =
  handler :: "string \<Rightarrow> (console_terminal \<Rightarrow> string \<Rightarrow> console_terminal \<times> (string + string)) option"
  console_now :: "string + string"

text \<open>What \<^verbatim>\<open>print\<close> writes for a list of printed lines.\<close>

definition written :: "string list \<Rightarrow> string" where
  "written ls = concat (map (\<lambda>l. l @ ''\<newline>'') ls)"

text \<open>
  The body of the \<^verbatim>\<open>try\<close> statement for one stripped line: the terminal after it and
  either the exception raised or the lines printed.  \<^verbatim>\<open>_mount_command\<close> returns its
  text and prints nothing, so the \<^verbatim>\<open>mount\<close> branch prints an empty line.
\<close>

definition console_startup_try ::
  "host \<Rightarrow> console_commands \<Rightarrow> console_terminal \<Rightarrow> string \<Rightarrow> console_terminal \<times> (string + string list)" where
  "console_startup_try h c st line =
     (if startswith (lower line) ''echo '' then (st, Inr [drop 5 line])
      else
        (let parts = split_ws line in
         if parts = [] then (st, Inr [])
         else
           (let cmd = lower (hd parts); args = join '' '' (tl parts) in
            case handler c cmd of
              Some method \<Rightarrow>
                (case method st args of
                   (st', Inl e) \<Rightarrow> (st', Inl e)
                 | (st', Inr output) \<Rightarrow>
                     (st', Inr (if strip output \<noteq> [] then [strip output] else [])))
            | None \<Rightarrow>
                if cmd = ''cd'' then
                  (case console_change_directory h st args of
                     (st', result) \<Rightarrow> (st', Inr (if result \<noteq> [] then [result] else [])))
                else if cmd = ''dir'' then
                  (st, Inr [strip (written (console_list_files h st None))])
                else if cmd = ''mount'' then (st, Inr [[]])
                else if cmd = ''date'' then
                  (st, case console_now c of Inl e \<Rightarrow> Inl e | Inr t \<Rightarrow> Inr [t])
                else (st, Inr [''Startup command not recognized: '' @ line]))))"

text \<open>The loop over the lines; the accumulator is the terminal and the printed lines.\<close>

fun console_run_lines ::
  "host \<Rightarrow> console_commands \<Rightarrow> string list \<Rightarrow> console_terminal \<times> string list \<Rightarrow> console_terminal \<times> string list" where
  "console_run_lines h c [] acc = acc"
| "console_run_lines h c (raw # rest) (st, printed) =
     (let line = strip raw in
      if line = [] \<or> startswith line '';'' then console_run_lines h c rest (st, printed)
      else (case console_startup_try h c st line of
              (st', Inl e) \<Rightarrow>
                console_run_lines h c rest
                  (st', printed @ [''Error executing startup command '' @ [CHR 0x27] @ line @
                                   [CHR 0x27] @ '': '' @ e])
            | (st', Inr ls) \<Rightarrow> console_run_lines h c rest (st', printed @ ls)))"

definition console_run_startup_script ::
  "host \<Rightarrow> console_commands \<Rightarrow> console_terminal \<Rightarrow> string \<Rightarrow> string \<Rightarrow> console_terminal \<times> string list" where
  "console_run_startup_script h c st script_name content =
     console_run_lines h c (split_on (CHR 0x0A) content)
       (st, [''Executing '' @ script_name @ ''...''])"

text \<open>
  Console commands to run a script with: \<^verbatim>\<open>guru\<close> raises, \<^verbatim>\<open>status\<close> writes one
  line, and no other method exists.
\<close>

definition sample_console_commands :: console_commands where
  "sample_console_commands =
     \<lparr>handler = (\<lambda>cmd. if cmd = ''guru'' then Some (\<lambda>st arg. (st, Inl ''boom''))
                       else if cmd = ''status'' then Some (\<lambda>st arg. (st, Inr ''System Status:\<newline>''))
                       else None),
      console_now = Inr ''today''\<rparr>"

text \<open>
  Two script texts: a comment, an empty line, a command that raises (followed by the
  no-break space U+00A0) and an \<^verbatim>\<open>echo\<close>.
\<close>

definition sample_script :: string where
  "sample_script = ''; comment\<newline>\<newline>info'' @ [CHR 0xA0] @ ''\<newline>echo ok''"

definition sample_console_script :: string where
  "sample_console_script = ''; comment\<newline>\<newline>guru'' @ [CHR 0xA0] @ ''\<newline>echo ok''"

section \<open>Properties of the web terminal\<close>

lemma change_directory_history:
  "command_history (fst (change_directory h st path)) = command_history st"
  by (simp add: change_directory_def cd_dh0_def enter_dir_def Let_def split: option.splits)

lemma change_directory_history_pair:
  "change_directory h st path = (st', out) \<Longrightarrow> command_history st' = command_history st"
  using change_directory_history [of h st path] by simp

lemma startup_try_history:
  "command_history (fst (startup_try h b st line)) = command_history st"
  by (auto simp add: startup_try_def appending_def Let_def split: prod.splits
           dest: change_directory_history_pair)

lemma startup_line_history:
  "command_history (fst (startup_line h b st line)) = command_history st"
  using startup_try_history [of h b st line]
  by (auto simp add: startup_line_def split: prod.splits sum.splits)

lemma run_startup_lines_history:
  "command_history (fst (run_startup_lines h b ls (st, out))) = command_history st"
proof (induction ls arbitrary: st out)
  case Nil
  show ?case by simp
next
  case (Cons raw rest)
  show ?case
  proof (cases "strip raw = [] \<or> startswith (strip raw) '';''")
    case True
    then show ?thesis using Cons.IH [of st out] by auto
  next
    case False
    obtain st' chunk where l: "startup_line h b st (strip raw) = (st', chunk)"
      by (cases "startup_line h b st (strip raw)")
    have "command_history st' = command_history st"
      using startup_line_history [of h b st "strip raw"] l by simp
    then show ?thesis using False l Cons.IH [of st' "out @ chunk"] by simp
  qed
qed


lemma execute_command_history:
  "command_history (fst (execute_command h b st line)) =
     (if split_ws (strip line) = [] \<or>
         (endswith (lower (hd (split_ws (strip line)))) '':'' \<and>
          upper (lower (hd (split_ws (strip line)))) \<in> set (map (\<lambda>d. upper (fst d)) (directories st)))
      then command_history st else command_history st @ [line])"
  by (auto simp add: execute_command_def Let_def returning_def change_directory_history
           split: prod.splits dest!: change_directory_history_pair)

lemma run_commands_history:
  "\<exists>new. command_history (run_commands h b st cs) = command_history st @ new"
proof (induction cs arbitrary: st)
  case Nil
  show ?case by simp
next
  case (Cons c cs)
  obtain new where n: "command_history (run_commands h b (fst (execute_command h b st c)) cs) =
      command_history (fst (execute_command h b st c)) @ new"
    using Cons.IH by blast
  show ?case
    using n execute_command_history [of h b st c] by (cases "split_ws (strip c) = []") auto
qed

lemma eval_echo_hi: "split_ws (strip ''echo hi'') = [''echo'', ''hi'']"
  by (simp add: split_ws_def strip_def is_space_def)

lemma eval_ram: "split_ws (strip ''ram:'') = [''ram:'']"
  by (simp add: split_ws_def strip_def is_space_def)

lemma eval_nbsp: "split_ws (strip [CHR 0xA0, CHR 0x85]) = []"
  by (simp add: split_ws_def strip_def is_space_def)

lemma eval_lower_echo: "lower ''echo'' = ''echo''"
  by (simp add: lower_def lower_char_def lower_table_def)

lemma eval_lower_ram: "lower ''ram:'' = ''ram:''"
  by (simp add: lower_def lower_char_def lower_table_def)

lemma eval_upper_ram: "upper ''ram:'' = ''RAM:''"
  by (simp add: upper_def upper_char_def upper_table_def)

lemma eval_upper_devices:
  "map (\<lambda>d. upper (fst d)) (directories initial_terminal) = [''SYS:'', ''RAM:'', ''C:'', ''DH0:'']"
  by (simp add: initial_terminal_def upper_def upper_char_def upper_table_def)

text \<open>
  C10.  The command history is append-only.  A call of \<^verbatim>\<open>execute_command\<close> leaves the
  history as it is when the line is blank (empty, or only characters that
  \<^verbatim>\<open>str.isspace\<close> accepts, such as U+00A0) or its first word is a device name, and
  otherwise appends the raw command line, once, at the end.  \<^verbatim>\<open>change_directory\<close> and
  the startup-script runner leave the history as it is, and after any sequence of
  commands of a session the history the session started with is still its beginning.
\<close>

theorem history_append_only:
  "command_history (fst (execute_command h b st line)) =
     (if split_ws (strip line) = [] \<or>
         (endswith (lower (hd (split_ws (strip line)))) '':'' \<and>
          upper (lower (hd (split_ws (strip line)))) \<in> set (map (\<lambda>d. upper (fst d)) (directories st)))
      then command_history st else command_history st @ [line])
   \<and> command_history (fst (change_directory h st path)) = command_history st
   \<and> command_history (fst (run_startup_script h b st script_name content)) = command_history st
   \<and> (\<exists>new. command_history (run_commands h b st cs) = command_history st @ new)"
  using execute_command_history [of h b st line] change_directory_history [of h st path]
    run_startup_lines_history [of h b] run_commands_history [of h b st cs]
  by (simp add: run_startup_script_def)

theorem history_append_only_witness:
  "command_history (fst (execute_command plain_host sample_builtins initial_terminal ''echo hi''))
     = [''echo hi'']
   \<and> command_history (fst (execute_command plain_host sample_builtins initial_terminal ''ram:''))
     = []
   \<and> command_history (fst (execute_command plain_host sample_builtins initial_terminal '''')) = []
   \<and> command_history (fst (execute_command plain_host sample_builtins initial_terminal
                              [CHR 0xA0, CHR 0x85])) = []"
  using history_append_only [of plain_host sample_builtins initial_terminal "''echo hi''"]
    history_append_only [of plain_host sample_builtins initial_terminal "''ram:''"]
    history_append_only [of plain_host sample_builtins initial_terminal "''''"]
    history_append_only [of plain_host sample_builtins initial_terminal "[CHR 0xA0, CHR 0x85]"]
  by (simp add: eval_echo_hi eval_ram eval_nbsp eval_lower_echo eval_lower_ram eval_upper_ram
        eval_upper_devices endswith_def)
     (simp add: initial_terminal_def split_ws_def strip_def)

section \<open>Change-directory\<close>

lemma split_on_root: "c \<notin> set xs \<Longrightarrow> split_on c (xs @ [c]) = [xs, []]"
  by (induction xs) auto

lemma go_up_root: "CHR '':'' \<notin> set dev \<Longrightarrow> go_up (dev @ '':'') = ''SYS:''"
  by (simp add: go_up_def split_on_root)

lemma upper_char_colon: "upper_char c = CHR '':'' \<longleftrightarrow> c = CHR '':''"
  by (simp add: upper_char_def upper_table_def)

lemma upper_dotdot: "upper ''..'' \<noteq> ''DH0:''"
  by (simp add: upper_def)

lemma mount_key_dotdot: "mount_key ''..'' = ''..:''"
  by (simp add: mount_key_def upper_def upper_char_def upper_table_def endswith_def)

lemma cd_root_sys:
  "current_dir st = ''SYS:'' \<Longrightarrow>
   change_directory h st ''..'' = (st, ''Already at root directory.\<newline>'')"
  by (simp add: change_directory_def upper_dotdot)

lemma cd_root_other:
  "current_dir st = dev @ '':'' \<Longrightarrow> CHR '':'' \<notin> set dev \<Longrightarrow> dev \<noteq> ''SYS'' \<Longrightarrow>
   change_directory h st ''..'' = (enter_dir st ''SYS:'', '''')"
  by (simp add: change_directory_def upper_dotdot go_up_root)

lemma console_cd_root_sys:
  "map_of (mounted_shared_folders st) ''..:'' = None \<Longrightarrow> current_dir st = ''SYS:'' \<Longrightarrow>
   console_change_directory h st ''..'' = (st, ''Already at root directory.'')"
  by (simp add: console_change_directory_def upper_dotdot mount_key_dotdot)

lemma console_cd_root_other:
  "map_of (mounted_shared_folders st) ''..:'' = None \<Longrightarrow> current_dir st = dev @ '':'' \<Longrightarrow>
   CHR '':'' \<notin> set dev \<Longrightarrow> dev \<noteq> ''SYS'' \<Longrightarrow>
   console_change_directory h st ''..'' = (enter_dir st ''SYS:'', '''')"
  by (simp add: console_change_directory_def upper_dotdot mount_key_dotdot go_up_root
        startswith_def)

lemma eval_upper_RAM: "upper ''RAM:'' = ''RAM:''"
  by (simp add: upper_def upper_char_def upper_table_def)

lemma eval_cd_ram:
  "change_directory plain_host initial_terminal ''RAM:'' = (enter_dir initial_terminal ''RAM:'', '''')"
  by (simp add: change_directory_def eval_upper_RAM plain_host_def startswith_def has_key_def
        initial_terminal_def)

lemma eval_console_cd_ram:
  "console_change_directory plain_host initial_console ''RAM:'' =
     (enter_dir initial_console ''RAM:'', '''')"
  by (simp add: console_change_directory_def mount_key_def endswith_def eval_upper_RAM
        startswith_def has_key_def initial_console_def)

text \<open>
  C1, as the specification states it, fails: after \<^verbatim>\<open>cd RAM:\<close> in a fresh session the
  current directory is the device root \<^verbatim>\<open>RAM:\<close>, and \<^verbatim>\<open>cd ..\<close> there returns the
  empty text and moves to \<^verbatim>\<open>SYS:\<close>, in the web terminal and in the console.
\<close>

theorem parent_of_device_root_counterexample:
  "change_directory plain_host initial_terminal ''RAM:'' = (enter_dir initial_terminal ''RAM:'', '''')
   \<and> current_dir (enter_dir initial_terminal ''RAM:'') = ''RAM:''
   \<and> snd (change_directory plain_host (enter_dir initial_terminal ''RAM:'') ''..'') = ''''
   \<and> current_dir (fst (change_directory plain_host (enter_dir initial_terminal ''RAM:'') ''..''))
       = ''SYS:''
   \<and> console_change_directory plain_host initial_console ''RAM:''
       = (enter_dir initial_console ''RAM:'', '''')
   \<and> snd (console_change_directory plain_host (enter_dir initial_console ''RAM:'') ''..'') = ''''
   \<and> current_dir (fst (console_change_directory plain_host (enter_dir initial_console ''RAM:'') ''..''))
       = ''SYS:''"
proof -
  have a: "change_directory plain_host (enter_dir initial_terminal ''RAM:'') ''..''
             = (enter_dir (enter_dir initial_terminal ''RAM:'') ''SYS:'', '''')"
    by (rule cd_root_other [of _ "''RAM''"]) (simp_all add: enter_dir_def)
  have b: "console_change_directory plain_host (enter_dir initial_console ''RAM:'') ''..''
             = (enter_dir (enter_dir initial_console ''RAM:'') ''SYS:'', '''')"
    by (rule console_cd_root_other [of _ "''RAM''"])
       (simp_all add: enter_dir_def initial_console_def)
  show ?thesis
    by (simp add: a b eval_cd_ram eval_console_cd_ram) (simp add: enter_dir_def)
qed

text \<open>
  C1, amended.  When the current directory is a device root (a name without a colon,
  followed by a colon), \<^verbatim>\<open>cd ..\<close> at \<^verbatim>\<open>SYS:\<close> changes nothing and answers ``Already
  at root directory.''; at every other device root it answers the empty text and makes
  \<^verbatim>\<open>SYS:\<close> the current directory.  Both terminals do so (the console when no shared
  folder is mounted under the name \<^verbatim>\<open>..:\<close>).
\<close>

theorem parent_of_device_root:
  assumes "CHR '':'' \<notin> set dev"
  shows "(current_dir st = dev @ '':'' \<longrightarrow>
            change_directory h st ''..'' =
              (if dev = ''SYS'' then (st, ''Already at root directory.\<newline>'')
               else (enter_dir st ''SYS:'', '''')))
       \<and> (current_dir cst = dev @ '':'' \<and> map_of (mounted_shared_folders cst) ''..:'' = None \<longrightarrow>
            console_change_directory h cst ''..'' =
              (if dev = ''SYS'' then (cst, ''Already at root directory.'')
               else (enter_dir cst ''SYS:'', '''')))"
  using assms cd_root_sys [of st h] cd_root_other [of st dev h]
    console_cd_root_sys [of cst h] console_cd_root_other [of cst dev h]
  by auto

theorem parent_of_device_root_witness:
  "change_directory plain_host initial_terminal ''..''
     = (initial_terminal, ''Already at root directory.\<newline>'')
   \<and> console_change_directory plain_host initial_console ''..''
     = (initial_console, ''Already at root directory.'')
   \<and> change_directory plain_host (enter_dir initial_terminal ''C:'') ''..''
     = (enter_dir (enter_dir initial_terminal ''C:'') ''SYS:'', '''')
   \<and> console_change_directory plain_host (enter_dir initial_console ''C:'') ''..''
     = (enter_dir (enter_dir initial_console ''C:'') ''SYS:'', '''')"
  using parent_of_device_root [of "''SYS''" initial_terminal plain_host initial_console]
    parent_of_device_root [of "''C''" "enter_dir initial_terminal ''C:''" plain_host
      "enter_dir initial_console ''C:''"]
  by (simp add: initial_terminal_def initial_console_def enter_dir_def)

lemma cd_fail_wsa:
  "change_directory h st path = (st', out) \<Longrightarrow> out \<noteq> [] \<Longrightarrow>
     st' = st \<and> (out = ''Usage: CD <directory>\<newline>'' \<or> out = ''Already at root directory.\<newline>''
        \<or> out = ''Directory '' @ path @ '' not found.\<newline>'')"
  by (auto simp add: change_directory_def cd_dh0_def Let_def split: if_splits option.splits)

lemma cd_fail_console:
  "console_change_directory h st path = (st', out) \<Longrightarrow> out \<noteq> [] \<Longrightarrow>
     st' = st \<and> (out = ''Already at root directory.''
        \<or> out = ''Directory '' @ path @ '' not found.''
        \<or> out = ''Directory '' @ drop 3 path @ '' not found.'')"
  by (auto simp add: console_change_directory_def change_shared_folder_directory_def Let_def
           split: if_splits option.splits)

lemma cd_moved_pair:
  "change_directory h s p = (s', out) \<Longrightarrow> out \<noteq> [] \<Longrightarrow> current_dir s' = current_dir s"
  using cd_fail_wsa [of h s p s' out] by simp

lemma execute_command_moved:
  "current_dir (fst (execute_command h b st line)) = current_dir st \<or>
   snd (execute_command h b st line) = Inr (Text [])"
  by (auto simp add: execute_command_def Let_def returning_def split: prod.splits
           dest: cd_moved_pair)

lemma colon_of_upper: "CHR '':'' \<in> set (upper s) \<Longrightarrow> CHR '':'' \<in> set s"
  by (auto simp add: upper_def) (metis upper_char_colon)

lemma no_colon_not_dh0: "CHR '':'' \<notin> set path \<Longrightarrow> upper path \<noteq> ''DH0:''"
  using colon_of_upper [of path] by auto

lemma upper_char_dot: "upper_char (CHR ''.'') = CHR ''.''"
  by (simp add: upper_char_def upper_table_def)

lemma dh0_not_dotdot: "startswith (upper path) ''DH0:'' \<Longrightarrow> \<not> startswith path ''../''"
  by (cases path) (auto simp add: startswith_def upper_def upper_char_dot)

lemma cd_unknown_wsa:
  "CHR '':'' \<in> set path \<Longrightarrow> \<not> has_key (directories st) path \<Longrightarrow>
   \<not> startswith (upper path) ''DH0:'' \<Longrightarrow>
   change_directory h st path = (st, ''Directory '' @ path @ '' not found.\<newline>'')"
  by (auto simp add: change_directory_def startswith_def)

lemma cd_unknown_console:
  "CHR '':'' \<in> set path \<Longrightarrow> \<not> has_key (directories st) path \<Longrightarrow>
   \<not> startswith (upper path) ''DH0:'' \<Longrightarrow> \<not> startswith path ''../'' \<Longrightarrow>
   map_of (mounted_shared_folders st) (mount_key path) = None \<Longrightarrow>
   console_change_directory h st path = (st, ''Directory '' @ path @ '' not found.'')"
  by (auto simp add: console_change_directory_def startswith_def)

lemma cd_failure_unchanged:
  "snd (change_directory h st path) \<noteq> [] \<longrightarrow>
      fst (change_directory h st path) = st \<and>
      snd (change_directory h st path) \<in>
        {''Usage: CD <directory>\<newline>'', ''Already at root directory.\<newline>'',
         ''Directory '' @ path @ '' not found.\<newline>''}"
  using cd_fail_wsa [of h st path "fst (change_directory h st path)" "snd (change_directory h st path)"]
  by auto

lemma cd_usage_wsa:
  "change_directory h st [] = (st, ''Usage: CD <directory>\<newline>'')"
  by (simp add: change_directory_def upper_def)

lemma cd_at_root_wsa:
  "current_dir st = ''SYS:'' \<longrightarrow>
      change_directory h st ''..'' = (st, ''Already at root directory.\<newline>'')"
  using cd_root_sys [of st h] by blast

lemma cd_absent_absolute_wsa:
  "CHR '':'' \<in> set path \<and> upper path \<noteq> ''DH0:'' \<and>
       (if startswith (upper path) ''DH0:'' \<and> is_windows h
        then \<not> (path_exists h (retry_backslash h (win_fs_path h path)) \<and>
                path_isdir h (retry_backslash h (win_fs_path h path))) \<and>
             (endswith path ''/'' \<or>
              \<not> (path_exists h (win_fs_path h (path @ ''/'')) \<and>
                 path_isdir h (win_fs_path h (path @ ''/''))))
        else \<not> has_key (directories st) path) \<longrightarrow>
      change_directory h st path = (st, ''Directory '' @ path @ '' not found.\<newline>'')"
  by (auto simp add: change_directory_def cd_dh0_def Let_def split: if_splits)

lemma cd_absent_relative_wsa:
  "path \<noteq> [] \<and> path \<noteq> ''..'' \<and> CHR '':'' \<notin> set path \<and>
       (let p = (if current_dir st = ''DH0:'' then ''DH0:'' @ path
                 else current_dir st @ ''/'' @ path);
            q = (if current_dir st = ''SYS:'' then ''SYS:'' @ path
                 else current_dir st @ ''/'' @ path)
        in if startswith (current_dir st) ''DH0:'' \<and> is_windows h
           then \<not> (path_exists h (retry_backslash h (win_fs_path h p)) \<and>
                   path_isdir h (retry_backslash h (win_fs_path h p))) \<and>
                (endswith p ''/'' \<or>
                 \<not> (path_exists h (win_fs_path h (p @ ''/'')) \<and>
                    path_isdir h (win_fs_path h (p @ ''/''))))
           else \<not> has_key (directories st) q \<and>
                (\<forall>ds. map_of (directories st) (current_dir st) = Some ds \<longrightarrow> path \<notin> set ds)) \<longrightarrow>
      change_directory h st path = (st, ''Directory '' @ path @ '' not found.\<newline>'')"
  using no_colon_not_dh0 [of path]
  by (auto simp add: change_directory_def cd_dh0_def Let_def split: if_splits option.splits)

lemma cd_failure_unchanged_console:
  "snd (console_change_directory h cst path) \<noteq> [] \<longrightarrow>
      fst (console_change_directory h cst path) = cst \<and>
      snd (console_change_directory h cst path) \<in>
        {''Already at root directory.'', ''Directory '' @ path @ '' not found.'',
         ''Directory '' @ drop 3 path @ '' not found.''}"
  using cd_fail_console [of h cst path "fst (console_change_directory h cst path)"
      "snd (console_change_directory h cst path)"]
  by auto

lemma cd_at_root_console:
  "map_of (mounted_shared_folders cst) (mount_key path) = None \<and>
       (path = ''..'' \<or> startswith path ''../'') \<and> current_dir cst = ''SYS:'' \<longrightarrow>
      console_change_directory h cst path = (cst, ''Already at root directory.'')"
  using no_colon_not_dh0 [of "''..''"] dh0_not_dotdot [of path]
  by (auto simp add: console_change_directory_def startswith_def)

lemma cd_absent_sibling_console:
  "map_of (mounted_shared_folders cst) (mount_key path) = None \<and>
       startswith path ''../'' \<and> current_dir cst \<noteq> ''SYS:'' \<and> drop 3 path \<noteq> [] \<and>
       \<not> has_key (directories cst)
           (if endswith (go_up (current_dir cst)) '':'' then go_up (current_dir cst) @ drop 3 path
            else go_up (current_dir cst) @ ''/'' @ drop 3 path) \<longrightarrow>
      console_change_directory h cst path = (cst, ''Directory '' @ drop 3 path @ '' not found.'')"
  using dh0_not_dotdot [of path]
  by (auto simp add: console_change_directory_def Let_def startswith_def)

lemma cd_absent_absolute_console:
  "map_of (mounted_shared_folders cst) (mount_key path) = None \<and>
       CHR '':'' \<in> set path \<and> upper path \<noteq> ''DH0:'' \<and> \<not> startswith path ''../'' \<and>
       (if startswith (upper path) ''DH0:''
        then \<not> ((is_wsl h \<or> is_windows h) \<and> path_exists h (console_fs_path h path) \<and>
                path_isdir h (console_fs_path h path))
        else \<not> has_key (directories cst) path) \<longrightarrow>
      console_change_directory h cst path = (cst, ''Directory '' @ path @ '' not found.'')"
  by (auto simp add: console_change_directory_def split: if_splits)

lemma cd_absent_relative_console:
  "map_of (mounted_shared_folders cst) (mount_key path) = None \<and>
       path \<noteq> ''..'' \<and> \<not> startswith path ''../'' \<and> CHR '':'' \<notin> set path \<and>
       (let p = (if upper (current_dir cst) = ''DH0:'' then ''DH0:/'' @ path
                 else current_dir cst @ ''/'' @ path);
            q = (if current_dir cst = ''SYS:'' then ''SYS:'' @ path
                 else current_dir cst @ ''/'' @ path)
        in if startswith (upper (current_dir cst)) ''DH0:''
           then \<not> ((is_wsl h \<or> is_windows h) \<and> path_exists h (console_fs_path h p) \<and>
                   path_isdir h (console_fs_path h p))
           else \<not> has_key (directories cst) q \<and>
                (\<forall>ds. map_of (directories cst) (current_dir cst) = Some ds \<longrightarrow> path \<notin> set ds)) \<longrightarrow>
      console_change_directory h cst path = (cst, ''Directory '' @ path @ '' not found.'')"
  using no_colon_not_dh0 [of path]
  by (auto simp add: console_change_directory_def Let_def split: if_splits option.splits)

lemma cd_absent_shared_console:
  "map_of (mounted_shared_folders cst) (mount_key path) = Some info \<and>
       path \<noteq> mount_key path \<and>
       \<not> (path_exists h (shared_fs_path h (shared_path info) (mount_key path) path) \<and>
          path_isdir h (shared_fs_path h (shared_path info) (mount_key path) path)) \<longrightarrow>
      console_change_directory h cst path = (cst, ''Directory '' @ path @ '' not found.'')"
  by (auto simp add: console_change_directory_def change_shared_folder_directory_def Let_def)

lemma execute_cd_line:
  "split_ws (strip line) = w # args \<and> lower w = ''cd'' \<longrightarrow>
      execute_command h b st line =
        (fst (change_directory h (st\<lparr>command_history := command_history st @ [line]\<rparr>)
                (join '' '' args)),
         Inr (Text (snd (change_directory h
                           (st\<lparr>command_history := command_history st @ [line]\<rparr>)
                           (join '' '' args)))))"
  by (simp add: execute_command_def Let_def endswith_def split: prod.splits)

lemma execute_moved_line:
  "current_dir (fst (execute_command h b st line)) \<noteq> current_dir st \<longrightarrow>
      snd (execute_command h b st line) = Inr (Text [])"
  using execute_command_moved [of h b st line] by blast

lemma do_cd_line:
  "arg \<noteq> [] \<longrightarrow>
      do_cd h cst arg =
        (fst (console_change_directory h cst arg),
         if snd (console_change_directory h cst arg) \<noteq> []
         then [snd (console_change_directory h cst arg)] else [])"
  by (simp add: do_cd_def split: prod.splits)

lemma eval_upper_NOPE: "upper ''NOPE:'' = ''NOPE:''"
  by (simp add: upper_def upper_char_def upper_table_def)

lemma eval_cd_nope: "split_ws (strip ''cd NOPE:'') = [''cd'', ''NOPE:'']"
  by (simp add: split_ws_def strip_def is_space_def)

lemma eval_lower_cd: "lower ''cd'' = ''cd''"
  by (simp add: lower_def lower_char_def lower_table_def)

lemma eval_upper_dh0_nope: "upper ''DH0:Nope'' = ''DH0:NOPE''"
  by (simp add: upper_def upper_char_def upper_table_def)

lemma eval_upper_DH0: "upper ''DH0:'' = ''DH0:''"
  by (simp add: upper_def upper_char_def upper_table_def)

lemma eval_upper_Nope: "upper ''Nope'' = ''NOPE''"
  by (simp add: upper_def upper_char_def upper_table_def)

lemma eval_upper_SYS: "upper ''SYS:'' = ''SYS:''"
  by (simp add: upper_def upper_char_def upper_table_def)

lemma eval_mount_key_up: "mount_key ''../Nope'' = ''..:''"
  by (simp add: mount_key_def upper_def upper_char_def upper_table_def endswith_def)

lemma eval_go_up_ram: "go_up ''RAM:'' = ''SYS:''"
  using go_up_root [of "''RAM''"] by simp

lemma eval_windows: "is_windows windows_host"
  by (simp add: windows_host_def)

lemma eval_not_windows: "\<not> is_windows plain_host \<and> \<not> is_wsl plain_host"
  by (simp add: plain_host_def is_wsl_def)

lemma eval_probe_nope:
  "\<not> path_exists windows_host (retry_backslash windows_host (win_fs_path windows_host ''DH0:Nope'')) \<and>
   \<not> path_exists windows_host (win_fs_path windows_host ''DH0:Nope/'')"
  by (simp add: retry_backslash_def win_fs_path_def startswith_def endswith_def replace_char_def
        windows_host_def drive_root_def games_path_def)

text \<open>
  C3.  A change-directory that fails leaves the session as it was and returns a
  descriptive text; nothing is raised.  Both functions are total and return a terminal
  and a text.  Whenever the text is not empty, the terminal returned is the one given
  (so the current directory and the prompt are unchanged) and the text is one of the
  fixed messages.  The failures are these.  In the web terminal: the empty path
  (``Usage''); \<^verbatim>\<open>..\<close> at \<^verbatim>\<open>SYS:\<close> (``Already at root directory.''); a path with a
  colon, other than \<^verbatim>\<open>DH0:\<close> itself, that on Windows under \<^verbatim>\<open>DH0:\<close> no probe of the
  host finds as a directory and that otherwise is not a key of the directory table; a
  path without a colon that, on Windows below \<^verbatim>\<open>DH0:\<close>, no probe finds and that
  otherwise is neither a key of the table when joined to the current directory nor a
  listed child of it.  In the console: \<^verbatim>\<open>..\<close> or \<^verbatim>\<open>../x\<close> at \<^verbatim>\<open>SYS:\<close>; \<^verbatim>\<open>../x\<close>
  whose target below the parent is not a key; a \<^verbatim>\<open>DH0:\<close> path the host does not hold
  as a directory; an absolute or relative path absent from the table; a path on a
  mounted shared folder that is not a directory of the host.  Each is answered with
  ``Directory \<dots> not found.''  Through the interpreters: a \<^verbatim>\<open>cd\<close> line of the web
  terminal returns exactly the terminal and the text of \<^verbatim>\<open>change_directory\<close> on the
  joined arguments, the current directory differs after any command only if the command
  returned the empty text, and \<^verbatim>\<open>do_cd\<close> of the console prints the text of
  \<^verbatim>\<open>_change_directory\<close> when it is not empty.
\<close>

theorem change_directory_failure:
  "(snd (change_directory h st path) \<noteq> [] \<longrightarrow>
      fst (change_directory h st path) = st \<and>
      snd (change_directory h st path) \<in>
        {''Usage: CD <directory>\<newline>'', ''Already at root directory.\<newline>'',
         ''Directory '' @ path @ '' not found.\<newline>''})
   \<and> change_directory h st [] = (st, ''Usage: CD <directory>\<newline>'')
   \<and> (current_dir st = ''SYS:'' \<longrightarrow>
      change_directory h st ''..'' = (st, ''Already at root directory.\<newline>''))
   \<and> (CHR '':'' \<in> set path \<and> upper path \<noteq> ''DH0:'' \<and>
       (if startswith (upper path) ''DH0:'' \<and> is_windows h
        then \<not> (path_exists h (retry_backslash h (win_fs_path h path)) \<and>
                path_isdir h (retry_backslash h (win_fs_path h path))) \<and>
             (endswith path ''/'' \<or>
              \<not> (path_exists h (win_fs_path h (path @ ''/'')) \<and>
                 path_isdir h (win_fs_path h (path @ ''/''))))
        else \<not> has_key (directories st) path) \<longrightarrow>
      change_directory h st path = (st, ''Directory '' @ path @ '' not found.\<newline>''))
   \<and> (path \<noteq> [] \<and> path \<noteq> ''..'' \<and> CHR '':'' \<notin> set path \<and>
       (let p = (if current_dir st = ''DH0:'' then ''DH0:'' @ path
                 else current_dir st @ ''/'' @ path);
            q = (if current_dir st = ''SYS:'' then ''SYS:'' @ path
                 else current_dir st @ ''/'' @ path)
        in if startswith (current_dir st) ''DH0:'' \<and> is_windows h
           then \<not> (path_exists h (retry_backslash h (win_fs_path h p)) \<and>
                   path_isdir h (retry_backslash h (win_fs_path h p))) \<and>
                (endswith p ''/'' \<or>
                 \<not> (path_exists h (win_fs_path h (p @ ''/'')) \<and>
                    path_isdir h (win_fs_path h (p @ ''/''))))
           else \<not> has_key (directories st) q \<and>
                (\<forall>ds. map_of (directories st) (current_dir st) = Some ds \<longrightarrow> path \<notin> set ds)) \<longrightarrow>
      change_directory h st path = (st, ''Directory '' @ path @ '' not found.\<newline>''))
   \<and> (snd (console_change_directory h cst path) \<noteq> [] \<longrightarrow>
      fst (console_change_directory h cst path) = cst \<and>
      snd (console_change_directory h cst path) \<in>
        {''Already at root directory.'', ''Directory '' @ path @ '' not found.'',
         ''Directory '' @ drop 3 path @ '' not found.''})
   \<and> (map_of (mounted_shared_folders cst) (mount_key path) = None \<and>
       (path = ''..'' \<or> startswith path ''../'') \<and> current_dir cst = ''SYS:'' \<longrightarrow>
      console_change_directory h cst path = (cst, ''Already at root directory.''))
   \<and> (map_of (mounted_shared_folders cst) (mount_key path) = None \<and>
       startswith path ''../'' \<and> current_dir cst \<noteq> ''SYS:'' \<and> drop 3 path \<noteq> [] \<and>
       \<not> has_key (directories cst)
           (if endswith (go_up (current_dir cst)) '':'' then go_up (current_dir cst) @ drop 3 path
            else go_up (current_dir cst) @ ''/'' @ drop 3 path) \<longrightarrow>
      console_change_directory h cst path = (cst, ''Directory '' @ drop 3 path @ '' not found.''))
   \<and> (map_of (mounted_shared_folders cst) (mount_key path) = None \<and>
       CHR '':'' \<in> set path \<and> upper path \<noteq> ''DH0:'' \<and> \<not> startswith path ''../'' \<and>
       (if startswith (upper path) ''DH0:''
        then \<not> ((is_wsl h \<or> is_windows h) \<and> path_exists h (console_fs_path h path) \<and>
                path_isdir h (console_fs_path h path))
        else \<not> has_key (directories cst) path) \<longrightarrow>
      console_change_directory h cst path = (cst, ''Directory '' @ path @ '' not found.''))
   \<and> (map_of (mounted_shared_folders cst) (mount_key path) = None \<and>
       path \<noteq> ''..'' \<and> \<not> startswith path ''../'' \<and> CHR '':'' \<notin> set path \<and>
       (let p = (if upper (current_dir cst) = ''DH0:'' then ''DH0:/'' @ path
                 else current_dir cst @ ''/'' @ path);
            q = (if current_dir cst = ''SYS:'' then ''SYS:'' @ path
                 else current_dir cst @ ''/'' @ path)
        in if startswith (upper (current_dir cst)) ''DH0:''
           then \<not> ((is_wsl h \<or> is_windows h) \<and> path_exists h (console_fs_path h p) \<and>
                   path_isdir h (console_fs_path h p))
           else \<not> has_key (directories cst) q \<and>
                (\<forall>ds. map_of (directories cst) (current_dir cst) = Some ds \<longrightarrow> path \<notin> set ds)) \<longrightarrow>
      console_change_directory h cst path = (cst, ''Directory '' @ path @ '' not found.''))
   \<and> (map_of (mounted_shared_folders cst) (mount_key path) = Some info \<and>
       path \<noteq> mount_key path \<and>
       \<not> (path_exists h (shared_fs_path h (shared_path info) (mount_key path) path) \<and>
          path_isdir h (shared_fs_path h (shared_path info) (mount_key path) path)) \<longrightarrow>
      console_change_directory h cst path = (cst, ''Directory '' @ path @ '' not found.''))
   \<and> (split_ws (strip line) = w # args \<and> lower w = ''cd'' \<longrightarrow>
      execute_command h b st line =
        (fst (change_directory h (st\<lparr>command_history := command_history st @ [line]\<rparr>)
                (join '' '' args)),
         Inr (Text (snd (change_directory h
                           (st\<lparr>command_history := command_history st @ [line]\<rparr>)
                           (join '' '' args))))))
   \<and> (current_dir (fst (execute_command h b st line)) \<noteq> current_dir st \<longrightarrow>
      snd (execute_command h b st line) = Inr (Text []))
   \<and> (arg \<noteq> [] \<longrightarrow>
      do_cd h cst arg =
        (fst (console_change_directory h cst arg),
         if snd (console_change_directory h cst arg) \<noteq> []
         then [snd (console_change_directory h cst arg)] else []))"
  by (intro conjI)
     (rule cd_failure_unchanged,
      rule cd_usage_wsa,
      rule cd_at_root_wsa,
      rule cd_absent_absolute_wsa,
      rule cd_absent_relative_wsa,
      rule cd_failure_unchanged_console,
      rule cd_at_root_console,
      rule cd_absent_sibling_console,
      rule cd_absent_absolute_console,
      rule cd_absent_relative_console,
      rule cd_absent_shared_console,
      rule execute_cd_line,
      rule execute_moved_line,
      rule do_cd_line)

theorem change_directory_failure_witness:
  "change_directory plain_host initial_terminal ''NOPE:''
     = (initial_terminal, ''Directory NOPE: not found.\<newline>'')
   \<and> change_directory windows_host initial_terminal ''DH0:Nope''
     = (initial_terminal, ''Directory DH0:Nope not found.\<newline>'')
   \<and> change_directory plain_host initial_terminal ''Nope''
     = (initial_terminal, ''Directory Nope not found.\<newline>'')
   \<and> change_directory windows_host (enter_dir initial_terminal ''DH0:'') ''Nope''
     = (enter_dir initial_terminal ''DH0:'', ''Directory Nope not found.\<newline>'')
   \<and> console_change_directory plain_host initial_console ''NOPE:''
     = (initial_console, ''Directory NOPE: not found.'')
   \<and> console_change_directory plain_host initial_console ''DH0:Nope''
     = (initial_console, ''Directory DH0:Nope not found.'')
   \<and> console_change_directory plain_host initial_console ''Nope''
     = (initial_console, ''Directory Nope not found.'')
   \<and> console_change_directory plain_host (enter_dir initial_console ''RAM:'') ''../Nope''
     = (enter_dir initial_console ''RAM:'', ''Directory Nope not found.'')
   \<and> execute_command plain_host sample_builtins initial_terminal ''cd NOPE:''
     = (initial_terminal\<lparr>command_history := [''cd NOPE:'']\<rparr>,
        Inr (Text ''Directory NOPE: not found.\<newline>''))
   \<and> do_cd plain_host initial_console ''NOPE:''
     = (initial_console, [''Directory NOPE: not found.''])"
proof -
  have a: "change_directory plain_host initial_terminal ''NOPE:''
     = (initial_terminal, ''Directory NOPE: not found.\<newline>'')"
    using change_directory_failure [where h = plain_host and st = initial_terminal and path = "''NOPE:''",
        THEN conjunct2, THEN conjunct2, THEN conjunct2, THEN conjunct1]
    by (simp add: eval_upper_NOPE startswith_def has_key_def initial_terminal_def)
  have b: "change_directory windows_host initial_terminal ''DH0:Nope''
     = (initial_terminal, ''Directory DH0:Nope not found.\<newline>'')"
    using change_directory_failure [where h = windows_host and st = initial_terminal and path = "''DH0:Nope''",
        THEN conjunct2, THEN conjunct2, THEN conjunct2, THEN conjunct1]
    by (simp add: eval_upper_dh0_nope startswith_def endswith_def eval_probe_nope eval_windows)
  have c: "change_directory plain_host initial_terminal ''Nope''
     = (initial_terminal, ''Directory Nope not found.\<newline>'')"
    using change_directory_failure [where h = plain_host and st = initial_terminal and path = "''Nope''",
        THEN conjunct2, THEN conjunct2, THEN conjunct2, THEN conjunct2,
        THEN conjunct1]
    by (simp add: startswith_def has_key_def initial_terminal_def plain_host_def)
  have d: "change_directory windows_host (enter_dir initial_terminal ''DH0:'') ''Nope''
     = (enter_dir initial_terminal ''DH0:'', ''Directory Nope not found.\<newline>'')"
    using change_directory_failure [where h = windows_host and st = "enter_dir initial_terminal ''DH0:''" and path = "''Nope''",
        THEN conjunct2, THEN conjunct2, THEN conjunct2, THEN conjunct2,
        THEN conjunct1]
    by (simp add: enter_dir_def startswith_def endswith_def eval_probe_nope eval_windows)
  have e: "console_change_directory plain_host initial_console ''NOPE:''
     = (initial_console, ''Directory NOPE: not found.'')"
    using change_directory_failure [where h = plain_host and cst = initial_console and path = "''NOPE:''",
        THEN conjunct2, THEN conjunct2, THEN conjunct2, THEN conjunct2,
        THEN conjunct2, THEN conjunct2, THEN conjunct2, THEN conjunct2,
        THEN conjunct1]
    by (simp add: eval_upper_NOPE mount_key_def startswith_def endswith_def has_key_def
          initial_console_def)
  have f: "console_change_directory plain_host initial_console ''DH0:Nope''
     = (initial_console, ''Directory DH0:Nope not found.'')"
    using change_directory_failure [where h = plain_host and cst = initial_console and path = "''DH0:Nope''",
        THEN conjunct2, THEN conjunct2, THEN conjunct2, THEN conjunct2,
        THEN conjunct2, THEN conjunct2, THEN conjunct2, THEN conjunct2,
        THEN conjunct1]
    by (simp add: eval_upper_dh0_nope mount_key_def startswith_def endswith_def
          eval_not_windows initial_console_def)
  have g: "console_change_directory plain_host initial_console ''Nope''
     = (initial_console, ''Directory Nope not found.'')"
    using change_directory_failure [where h = plain_host and cst = initial_console and path = "''Nope''",
        THEN conjunct2, THEN conjunct2, THEN conjunct2, THEN conjunct2,
        THEN conjunct2, THEN conjunct2, THEN conjunct2, THEN conjunct2,
        THEN conjunct2, THEN conjunct1]
    by (simp add: eval_upper_Nope eval_upper_SYS mount_key_def startswith_def endswith_def
          has_key_def initial_console_def)
  have i: "console_change_directory plain_host (enter_dir initial_console ''RAM:'') ''../Nope''
     = (enter_dir initial_console ''RAM:'', ''Directory Nope not found.'')"
    using change_directory_failure [where h = plain_host and cst = "enter_dir initial_console ''RAM:''" and path = "''../Nope''",
        THEN conjunct2, THEN conjunct2, THEN conjunct2, THEN conjunct2,
        THEN conjunct2, THEN conjunct2, THEN conjunct2, THEN conjunct1]
    by (simp add: eval_mount_key_up startswith_def endswith_def has_key_def enter_dir_def
          eval_go_up_ram initial_console_def)
  have j: "execute_command plain_host sample_builtins initial_terminal ''cd NOPE:''
     = (initial_terminal\<lparr>command_history := [''cd NOPE:'']\<rparr>,
        Inr (Text ''Directory NOPE: not found.\<newline>''))"
    using change_directory_failure [where h = plain_host and st = initial_terminal and b = sample_builtins
        and line = "''cd NOPE:''" and w = "''cd''" and args = "[''NOPE:'']",
        THEN conjunct2, THEN conjunct2, THEN conjunct2, THEN conjunct2,
        THEN conjunct2, THEN conjunct2, THEN conjunct2, THEN conjunct2,
        THEN conjunct2, THEN conjunct2, THEN conjunct2, THEN conjunct1]
      change_directory_failure [where h = plain_host
        and st = "initial_terminal\<lparr>command_history := [''cd NOPE:'']\<rparr>" and path = "''NOPE:''",
        THEN conjunct2, THEN conjunct2, THEN conjunct2, THEN conjunct1]
    by (simp add: eval_cd_nope eval_lower_cd eval_upper_NOPE startswith_def has_key_def
          initial_terminal_def)
  have k: "do_cd plain_host initial_console ''NOPE:''
     = (initial_console, [''Directory NOPE: not found.''])"
    using change_directory_failure [where h = plain_host and cst = initial_console and arg = "''NOPE:''",
        THEN conjunct2, THEN conjunct2, THEN conjunct2, THEN conjunct2,
        THEN conjunct2, THEN conjunct2, THEN conjunct2, THEN conjunct2,
        THEN conjunct2, THEN conjunct2, THEN conjunct2, THEN conjunct2,
        THEN conjunct2] e
    by simp
  show ?thesis using a b c d e f g i j k by simp
qed

section \<open>Device names and aliases typed as commands\<close>

lemma colon_in_upper: "CHR '':'' \<in> set (upper s) \<Longrightarrow> CHR '':'' \<in> set s"
  by (auto simp add: upper_def) (metis upper_char_colon)

lemma alias_key_shape:
  "map_of logical_assignments u = Some actual \<Longrightarrow> u \<noteq> [] \<and> endswith u '':'' \<and> CHR '':'' \<in> set u"
  by (auto simp add: logical_assignments_def endswith_def split: if_splits)

lemma precmd_alias:
  "map_of logical_assignments (upper line) = Some actual \<Longrightarrow> precmd st line = ''cd '' @ actual"
  using alias_key_shape [of "upper line" actual] colon_in_upper [of line]
  by (auto simp add: precmd_def upper_def)

lemma precmd_device:
  "line \<noteq> [] \<Longrightarrow> endswith (upper line) '':'' \<Longrightarrow> CHR '':'' \<in> set line \<Longrightarrow>
   map_of logical_assignments (upper line) = None \<Longrightarrow>
   find (\<lambda>d. upper d = upper line) (map fst (directories st)) = Some d \<Longrightarrow>
   precmd st line = ''cd '' @ d"
  by (simp add: precmd_def)

lemma execute_shorthand:
  "split_ws (strip line) \<noteq> [] \<Longrightarrow>
   endswith (lower (hd (split_ws (strip line)))) '':'' \<Longrightarrow>
   upper (lower (hd (split_ws (strip line)))) \<in> set (map (\<lambda>d. upper (fst d)) (directories st)) \<Longrightarrow>
   execute_command h b st line =
     (case change_directory h st (lower (hd (split_ws (strip line)))) of
        (st', out) \<Rightarrow> (st', Inr (Text out)))"
  by (simp add: execute_command_def Let_def)

lemma execute_shorthand_history:
  "split_ws (strip line) \<noteq> [] \<Longrightarrow>
   endswith (lower (hd (split_ws (strip line)))) '':'' \<Longrightarrow>
   upper (lower (hd (split_ws (strip line)))) \<in> set (map (\<lambda>d. upper (fst d)) (directories st)) \<Longrightarrow>
   command_history (fst (execute_command h b st line)) = command_history st"
  using execute_command_history [of h b st line] by simp

lemma execute_ordinary_history:
  "split_ws (strip line) \<noteq> [] \<Longrightarrow>
   \<not> (endswith (lower (hd (split_ws (strip line)))) '':'' \<and>
      upper (lower (hd (split_ws (strip line)))) \<in> set (map (\<lambda>d. upper (fst d)) (directories st))) \<Longrightarrow>
   command_history (fst (execute_command h b st line)) = command_history st @ [line]"
  using execute_command_history [of h b st line] by simp

lemma eval_S: "split_ws (strip ''S:'') = [''S:'']"
  by (simp add: split_ws_def strip_def is_space_def)

lemma eval_lower_S: "lower ''S:'' = ''s:''"
  by (simp add: lower_def lower_char_def lower_table_def)

lemma eval_upper_s: "upper ''s:'' = ''S:''"
  by (simp add: upper_def upper_char_def upper_table_def)

lemma eval_upper_S: "upper ''S:'' = ''S:''"
  by (simp add: upper_def upper_char_def upper_table_def)

text \<open>
  C5, as the specification states it, fails: \<^verbatim>\<open>S:\<close> is a single token that ends in the
  device separator and is a logical alias (the console rewrites it to \<^verbatim>\<open>cd SYS:S\<close>),
  but the interpreter of the web terminal appends it to the history and answers that
  the command was not found.
\<close>

theorem device_shorthand_counterexample:
  "split_ws (strip ''S:'') = [''S:'']
   \<and> map_of logical_assignments (upper ''S:'') = Some ''SYS:S''
   \<and> precmd initial_console ''S:'' = ''cd SYS:S''
   \<and> command_history (fst (execute_command plain_host sample_builtins initial_terminal ''S:''))
       = [''S:'']
   \<and> snd (execute_command plain_host sample_builtins initial_terminal ''S:'')
       = Inr (Text (''Command '' @ [CHR 0x27] @ ''s:'' @ [CHR 0x27] @ '' not found. Type '' @
                    [CHR 0x27] @ ''help'' @ [CHR 0x27] @ '' for available commands.\<newline>''))"
proof -
  have a: "map_of logical_assignments (upper ''S:'') = Some ''SYS:S''"
    by (simp add: eval_upper_S logical_assignments_def)
  have b: "execute_command plain_host sample_builtins initial_terminal ''S:'' =
      (initial_terminal\<lparr>command_history := [''S:'']\<rparr>,
       Inr (Text (''Command '' @ [CHR 0x27] @ ''s:'' @ [CHR 0x27] @ '' not found. Type '' @
                    [CHR 0x27] @ ''help'' @ [CHR 0x27] @ '' for available commands.\<newline>'')))"
    by (simp add: execute_command_def eval_S eval_lower_S eval_upper_s eval_upper_devices
          endswith_def Let_def)
       (simp add: initial_terminal_def)
  show ?thesis
    using precmd_alias [OF a, of initial_console] by (simp add: a b eval_S)
qed

text \<open>
  C5, amended.  In the web terminal a line whose first word ends in the device separator
  and matches a known device, case-insensitively, is handed to change-directory instead
  of verb dispatch, and the history is left as it was; every other non-blank line is
  appended to the history as typed, whatever the command answers.  The web terminal has
  no logical aliases.  In the console, \<^verbatim>\<open>precmd\<close> rewrites a line that is a logical alias
  to \<^verbatim>\<open>cd\<close> of the alias's target, and a line that is a device name to \<^verbatim>\<open>cd\<close> of that
  device, before the line is dispatched; the console keeps no history.
\<close>

theorem device_shorthand:
  fixes line :: string
  defines "cmd \<equiv> lower (hd (split_ws (strip line)))"
  shows
  "(split_ws (strip line) \<noteq> [] \<and> endswith cmd '':'' \<and>
    upper cmd \<in> set (map (\<lambda>d. upper (fst d)) (directories st)) \<longrightarrow>
      execute_command h b st line =
        (case change_directory h st cmd of (st', out) \<Rightarrow> (st', Inr (Text out)))
      \<and> command_history (fst (execute_command h b st line)) = command_history st)
   \<and> (split_ws (strip line) \<noteq> [] \<and>
      \<not> (endswith cmd '':'' \<and> upper cmd \<in> set (map (\<lambda>d. upper (fst d)) (directories st))) \<longrightarrow>
      command_history (fst (execute_command h b st line)) = command_history st @ [line])
   \<and> (map_of logical_assignments (upper cline) = Some actual \<longrightarrow>
      precmd cst cline = ''cd '' @ actual)
   \<and> (cline \<noteq> [] \<and> endswith (upper cline) '':'' \<and> CHR '':'' \<in> set cline \<and>
      map_of logical_assignments (upper cline) = None \<and>
      find (\<lambda>d. upper d = upper cline) (map fst (directories cst)) = Some d \<longrightarrow>
      precmd cst cline = ''cd '' @ d)"
  unfolding cmd_def
  using execute_shorthand [of line st h b] execute_shorthand_history [of line st h b]
    execute_ordinary_history [of line st h b]
    precmd_alias [of cline actual cst] precmd_device [of cline cst d]
  by blast

theorem device_shorthand_witness:
  "command_history (fst (execute_command plain_host sample_builtins initial_terminal ''ram:'')) = []
   \<and> execute_command plain_host sample_builtins initial_terminal ''ram:'' =
       (case change_directory plain_host initial_terminal ''ram:'' of
          (st', out) \<Rightarrow> (st', Inr (Text out)))
   \<and> command_history (fst (execute_command plain_host sample_builtins initial_terminal ''echo hi''))
       = [''echo hi'']
   \<and> precmd initial_console ''s:'' = ''cd SYS:S''
   \<and> precmd initial_console ''ram:'' = ''cd RAM:''"
  using device_shorthand [of "''ram:''" initial_terminal plain_host sample_builtins "''s:''"
      "''SYS:S''" initial_console "''RAM:''"]
    device_shorthand [of "''echo hi''" initial_terminal plain_host sample_builtins "''ram:''"
      "''SYS:S''" initial_console "''RAM:''"]
  by (simp add: eval_ram eval_lower_ram eval_upper_ram eval_upper_devices eval_echo_hi
        eval_lower_echo eval_upper_s endswith_def logical_assignments_def)
     (simp add: initial_console_def initial_terminal_def upper_def upper_char_def
        upper_table_def split_beta change_directory_history)

section \<open>Path resolution and logical aliases\<close>

lemma startswith_iff: "startswith s p \<longleftrightarrow> (\<exists>r. s = p @ r)"
  by (auto simp add: startswith_def) (metis append_take_drop_id)

lemma find_SomeD: "find P xs = Some x \<Longrightarrow> x \<in> set xs \<and> P x"
  by (induction xs) (auto split: if_splits)

lemma find_NoneI: "(\<And>x. x \<in> set xs \<Longrightarrow> \<not> P x) \<Longrightarrow> find P xs = None"
  by (induction xs) auto

lemma alias_target_upper:
  "(logical, actual) \<in> set logical_assignments \<Longrightarrow>
   CHR '':'' \<in> set actual \<and> CHR '':'' \<in> set logical \<and> logical \<noteq> [] \<and>
   take 4 (upper (actual @ rest)) \<in> {''SYS:'', ''RAM:''}"
  by (auto simp add: logical_assignments_def upper_def upper_char_def upper_table_def)

lemma alias_target_no_prefix:
  assumes "take 4 u \<in> {''SYS:'', ''RAM:''}" and "(l, a) \<in> set logical_assignments"
  shows "\<not> startswith u l"
proof
  assume "startswith u l"
  then obtain r where u: "u = l @ r" by (auto simp add: startswith_iff)
  show False using assms unfolding u by (auto simp add: logical_assignments_def)
qed

lemma resolve_no_alias:
  assumes "CHR '':'' \<in> set p"
    and "\<forall>(logical, actual) \<in> set logical_assignments. \<not> startswith (upper p) logical"
  shows "resolve_path st p = p"
proof -
  have "find (\<lambda>(logical, actual). startswith (upper p) logical) logical_assignments = None"
    using assms(2) by (intro find_NoneI) auto
  then show ?thesis using assms(1) by (auto simp add: resolve_path_def)
qed

lemma alias_cases:
  "(logical, actual) \<in> set logical_assignments \<Longrightarrow>
   (logical = ''S:'' \<and> actual = ''SYS:S'') \<or> (logical = ''L:'' \<and> actual = ''SYS:L'') \<or>
   (logical = ''DEVS:'' \<and> actual = ''SYS:DEVS'') \<or>
   (logical = ''FONTS:'' \<and> actual = ''SYS:Fonts'') \<or> (logical = ''T:'' \<and> actual = ''RAM:T'')"
  by (simp add: logical_assignments_def)

lemma find_alias:
  assumes "(logical, actual) \<in> set logical_assignments" and "u = logical @ r"
  shows "find (\<lambda>(logical, actual). startswith u logical) logical_assignments
          = Some (logical, actual)"
  using alias_cases [OF assms(1)]
  by (elim disjE conjE) (simp_all add: assms(2) logical_assignments_def startswith_def)

lemma resolve_alias:
  assumes "(logical, actual) \<in> set logical_assignments" and "startswith (upper p) logical"
  shows "resolve_path st p =
           (if drop (length logical) p \<noteq> [] then actual @ ''/'' @ drop (length logical) p
            else actual)"
proof -
  obtain r where u: "upper p = logical @ r" using assms(2) by (auto simp add: startswith_iff)
  have "CHR '':'' \<in> set (upper p)"
    using alias_target_upper [OF assms(1), of "[]"] unfolding u by simp
  then have c: "CHR '':'' \<in> set p" by (rule colon_in_upper)
  then have n: "p \<noteq> []" by auto
  have "find (\<lambda>(logical, actual). startswith (upper p) logical) logical_assignments
          = Some (logical, actual)"
    by (rule find_alias [OF assms(1) u])
  then show ?thesis using c n by (simp add: resolve_path_def Let_def)
qed

lemma resolve_alias_no_prefix:
  assumes "(logical, actual) \<in> set logical_assignments" and "startswith (upper p) logical"
    and "(l, a) \<in> set logical_assignments"
  shows "\<not> startswith (upper (resolve_path st p)) l"
proof -
  have "take 4 (upper (resolve_path st p)) \<in> {''SYS:'', ''RAM:''}"
    using alias_target_upper [OF assms(1), of "''/'' @ drop (length logical) p"]
      alias_target_upper [OF assms(1), of "[]"]
    by (simp add: resolve_alias [OF assms(1,2)])
  then show ?thesis using assms(3) by (rule alias_target_no_prefix)
qed

lemma resolve_absolute_fixed:
  assumes "CHR '':'' \<in> set p"
  shows "resolve_path st' (resolve_path st p) = resolve_path st p"
proof (cases "find (\<lambda>(logical, actual). startswith (upper p) logical) logical_assignments")
  case None
  then have "resolve_path st p = p" using assms by (auto simp add: resolve_path_def)
  moreover have "resolve_path st' p = p" using None assms by (auto simp add: resolve_path_def)
  ultimately show ?thesis by simp
next
  case (Some la)
  obtain logical actual where la: "la = (logical, actual)" by (cases la)
  have m: "(logical, actual) \<in> set logical_assignments" and s: "startswith (upper p) logical"
    using find_SomeD [OF Some] la by auto
  have r: "resolve_path st p =
           (if drop (length logical) p \<noteq> [] then actual @ ''/'' @ drop (length logical) p
            else actual)"
    by (rule resolve_alias [OF m s])
  have "CHR '':'' \<in> set (resolve_path st p)"
    using alias_target_upper [OF m, of "[]"] by (simp add: r)
  moreover have "\<forall>(l, a) \<in> set logical_assignments. \<not> startswith (upper (resolve_path st p)) l"
    using resolve_alias_no_prefix [OF m s] by auto
  ultimately show ?thesis by (rule resolve_no_alias)
qed

lemma eval_upper_env: "upper ''SYS:Prefs/Env'' = ''SYS:PREFS/ENV''"
  by (simp add: upper_def upper_char_def upper_table_def)

text \<open>
  C6.  Resolution leaves a canonical path as it is: a path that holds the device
  separator and does not begin, case-insensitively, with a logical alias is returned
  unchanged, whatever the current directory.  Moreover what resolution returns for any
  absolute token is itself a fixed point of resolution, from any current directory.
\<close>

theorem resolve_idempotent:
  "(CHR '':'' \<in> set p \<and>
    (\<forall>(logical, actual) \<in> set logical_assignments. \<not> startswith (upper p) logical) \<longrightarrow>
      resolve_path st p = p)
   \<and> (CHR '':'' \<in> set p \<longrightarrow> resolve_path st' (resolve_path st p) = resolve_path st p)"
  using resolve_no_alias [of p st] resolve_absolute_fixed [of p st' st] by blast

theorem resolve_idempotent_witness:
  "resolve_path initial_console ''SYS:Prefs/Env'' = ''SYS:Prefs/Env''
   \<and> resolve_path (enter_dir initial_console ''RAM:T'') ''SYS:Prefs/Env'' = ''SYS:Prefs/Env''"
  using resolve_idempotent [of "''SYS:Prefs/Env''" initial_console]
    resolve_idempotent [of "''SYS:Prefs/Env''" "enter_dir initial_console ''RAM:T''"]
  by (simp add: eval_upper_env logical_assignments_def startswith_def)

lemma do_dir_resolves:
  assumes "(logical, actual) \<in> set logical_assignments" and "startswith (upper (strip arg)) logical"
  shows "do_dir h st arg = list_resolved h st (resolve_path st (strip arg))"
proof -
  obtain r where u: "upper (strip arg) = logical @ r"
    using assms(2) by (auto simp add: startswith_iff)
  have "CHR '':'' \<in> set (upper (strip arg))"
    using alias_target_upper [OF assms(1)] unfolding u by simp
  then have c: "CHR '':'' \<in> set (strip arg)" by (rule colon_in_upper)
  then have n: "strip arg \<noteq> []" by auto
  show ?thesis
    using n resolve_absolute_fixed [OF c, of st st]
    by (simp add: do_dir_def console_list_files_def)
qed

lemma eval_mount_key_S: "mount_key ''S:'' = ''S:''"
  by (simp add: mount_key_def eval_upper_S endswith_def)

lemma eval_resolve_S: "resolve_path initial_console ''S:'' = ''SYS:S''"
  by (simp add: resolve_path_def eval_upper_S logical_assignments_def startswith_def)

text \<open>
  C7, as the specification states it, fails for an alias-prefixed argument of the
  \<^verbatim>\<open>cd\<close> command: resolution maps \<^verbatim>\<open>S:\<close> to \<^verbatim>\<open>SYS:S\<close>, which is a directory of a
  fresh console, but \<^verbatim>\<open>cd S:\<close> there is answered with ``Directory S: not found.'' and
  the console stays where it was, because \<^verbatim>\<open>do_cd\<close> does not pass its argument through
  resolution.
\<close>

theorem alias_substitution_counterexample:
  "resolve_path initial_console ''S:'' = ''SYS:S''
   \<and> has_key (directories initial_console) ''SYS:S''
   \<and> do_cd plain_host initial_console ''S:'' = (initial_console, [''Directory S: not found.''])"
proof -
  have "console_change_directory plain_host initial_console ''S:''
          = (initial_console, ''Directory S: not found.'')"
    using cd_unknown_console [of "''S:''" initial_console plain_host]
    by (simp add: eval_mount_key_S eval_upper_S startswith_def has_key_def
          initial_console_def)
  then show ?thesis
    by (simp add: do_cd_def eval_resolve_S) (simp add: has_key_def initial_console_def)
qed

text \<open>
  C7, amended.  For every path token that begins, case-insensitively, with a logical
  alias, \<^verbatim>\<open>_resolve_path\<close> returns the alias's target, followed by a slash and the rest
  of the token when there is a rest, and the result begins with no alias.  This holds
  for a bare alias typed as a command, which \<^verbatim>\<open>precmd\<close> rewrites to \<^verbatim>\<open>cd\<close> of the
  target, and for the argument of \<^verbatim>\<open>dir\<close>, which lists the resolved path.  The
  arguments of the other commands are not passed through resolution.
\<close>

theorem alias_substitution:
  assumes "(logical, actual) \<in> set logical_assignments"
  shows "(startswith (upper p) logical \<longrightarrow>
            resolve_path st p =
              (if drop (length logical) p \<noteq> [] then actual @ ''/'' @ drop (length logical) p
               else actual)
            \<and> (\<forall>(l, a) \<in> set logical_assignments. \<not> startswith (upper (resolve_path st p)) l))
       \<and> (upper line = logical \<longrightarrow> precmd st line = ''cd '' @ actual)
       \<and> (startswith (upper (strip arg)) logical \<longrightarrow>
            do_dir h st arg = list_resolved h st (resolve_path st (strip arg)))"
proof -
  have "map_of logical_assignments logical = Some actual"
    using assms by (auto simp add: logical_assignments_def)
  then have "upper line = logical \<longrightarrow> precmd st line = ''cd '' @ actual"
    using precmd_alias [of line actual st] by simp
  then show ?thesis
    using resolve_alias [OF assms, of p st] resolve_alias_no_prefix [OF assms, of p _ _ st]
      do_dir_resolves [OF assms, of arg h st]
    by blast
qed

theorem alias_substitution_witness:
  "resolve_path initial_console ''s:Startup-Sequence'' = ''SYS:S/Startup-Sequence''
   \<and> resolve_path initial_console ''S:'' = ''SYS:S''
   \<and> precmd initial_console ''s:'' = ''cd SYS:S''
   \<and> do_dir plain_host initial_console ''S:''
       = list_resolved plain_host initial_console ''SYS:S''"
proof -
  have m: "(''S:'', ''SYS:S'') \<in> set logical_assignments"
    by (simp add: logical_assignments_def)
  have u: "upper ''s:Startup-Sequence'' = ''S:STARTUP-SEQUENCE''"
    by (simp add: upper_def upper_char_def upper_table_def)
  have s: "strip ''S:'' = ''S:''"
    by (simp add: strip_def is_space_def)
  show ?thesis
    using alias_substitution [OF m, of "''s:Startup-Sequence''" initial_console "''s:''" "''S:''"
        plain_host]
      alias_substitution [OF m, of "''S:''" initial_console "''s:''" "''S:''" plain_host]
    by (simp add: u s eval_upper_S eval_upper_s startswith_def)
qed

section \<open>Directory listings\<close>

lemma direct_files_Nil: "direct_files path [] = []"
  by (simp add: direct_files_def)

lemma direct_files_Cons:
  "direct_files path ((fp, c) # fs) =
     (if startswith fp (path @ ''/'') \<and> CHR ''/'' \<notin> set (drop (length path + 1) fp)
      then (fp, c) # direct_files path fs else direct_files path fs)"
  by (simp add: direct_files_def)

lemma virtual_file_loop_eq:
  "virtual_file_loop h (path @ ''/'') fs (out, n, b) =
     (out @ map (\<lambda>(fp, c). file_entry (drop (length path + 1) fp) (length c) ''----rwed''
                               (amiga_date h None True)) (direct_files path fs),
      n + length (direct_files path fs),
      b + sum_list (map (\<lambda>(fp, c). length c) (direct_files path fs)))"
proof (induction fs arbitrary: out n b)
  case Nil
  show ?case by (simp add: direct_files_Nil)
next
  case (Cons x fs)
  obtain fp c where x: "x = (fp, c)" by (cases x)
  show ?case unfolding x by (simp add: Cons.IH direct_files_Cons)
qed

lemma list_virtual_dir_eq:
  "map_of (directories st) path = Some dirs \<Longrightarrow>
   list_virtual_dir h st path =
     dir_header path (amiga_day h None) (amiga_date h None False) #
     map (\<lambda>d. dir_entry d (amiga_date h None True)) dirs @
     map (\<lambda>(fp, c). file_entry (drop (length path + 1) fp) (length c) ''----rwed''
                       (amiga_date h None True)) (direct_files path (files st)) @
     [dir_footer (length dirs + length (direct_files path (files st))) (length dirs)
        (sum_list (map (\<lambda>(fp, c). length c) (direct_files path (files st))))]"
  by (simp add: list_virtual_dir_def virtual_file_loop_eq)

lemma list_resolved_virtual:
  "map_of (directories st) path = Some dirs \<Longrightarrow>
   map_of (mounted_shared_folders st) (mount_key path) = None \<Longrightarrow>
   \<not> startswith (upper path) ''DH0:'' \<Longrightarrow> path \<noteq> ''C:'' \<Longrightarrow>
   list_resolved h st path = list_virtual_dir h st path"
proof -
  assume m: "map_of (directories st) path = Some dirs"
    and "map_of (mounted_shared_folders st) (mount_key path) = None"
    and "\<not> startswith (upper path) ''DH0:''" and "path \<noteq> ''C:''"
  have "has_key (directories st) path"
    using map_of_SomeD [OF m] by (force simp add: has_key_def)
  then show ?thesis
    using \<open>map_of (mounted_shared_folders st) (mount_key path) = None\<close>
      \<open>\<not> startswith (upper path) ''DH0:''\<close> \<open>path \<noteq> ''C:''\<close>
    by (simp add: list_resolved_def)
qed

lemma list_virtual_files_eq:
  "list_virtual_files path fs (out, n) =
     (out @ concat (map (\<lambda>(fp, c). file_line (drop (length path + 1) fp) (length c))
                      (direct_files path fs)),
      n + length (direct_files path fs))"
proof (induction fs arbitrary: out n)
  case Nil
  show ?case by (simp add: direct_files_Nil)
next
  case (Cons x fs)
  obtain fp c where x: "x = (fp, c)" by (cases x)
  show ?case unfolding x by (simp add: Cons.IH direct_files_Cons)
qed

lemma list_placeholder_eq:
  "map_of (directories st) path = Some dirs \<Longrightarrow>
   list_placeholder st path =
     listing_header path @ concat (map dir_line dirs) @
     concat (map (\<lambda>(fp, c). file_line (drop (length path + 1) fp) (length c))
               (direct_files path (files st))) @
     listing_footer (length dirs) (length (direct_files path (files st)))"
  by (simp add: list_placeholder_def list_virtual_files_eq)

lemma sum_file_sizes_eq:
  "sum_file_sizes h p fs = Inr t \<Longrightarrow>
   t = sum_list (map (\<lambda>f. shown_size h (path_join h p f))
                  (filter (\<lambda>f. path_isfile h (path_join h p f)) fs))"
  by (induction fs arbitrary: t) (auto simp add: shown_size_def split: if_splits sum.splits)

lemma host_counts:
  "length (host_dirs h p items) = length (filter (\<lambda>i. path_isdir h (path_join h p i)) items)"
  "length (host_files h p items) = length (filter (\<lambda>i. \<not> path_isdir h (path_join h p i)) items)"
  by (simp_all add: host_dirs_def host_files_def)

lemma list_dh0_host_footer:
  "path_exists h (dh0_list_path h path) \<Longrightarrow> path_isdir h (dh0_list_path h path) \<Longrightarrow>
   listdir h (dh0_list_path h path) = Items items \<Longrightarrow>
   sum_file_sizes h (dh0_list_path h path) (host_files h (dh0_list_path h path) items) = Inr t \<Longrightarrow>
   last (list_dh0_host h st path) =
     dir_footer (length (host_dirs h (dh0_list_path h path) items) +
                 length (host_files h (dh0_list_path h path) items))
                (length (host_dirs h (dh0_list_path h path) items)) t"
  by (simp add: list_dh0_host_def Let_def)

lemma list_files_virtual:
  "map_of (directories st) path = Some dirs \<Longrightarrow> \<not> startswith path ''DH0:'' \<Longrightarrow>
   list_files h st path = list_placeholder st path"
proof -
  assume m: "map_of (directories st) path = Some dirs" and d: "\<not> startswith path ''DH0:''"
  have "has_key (directories st) path"
    using map_of_SomeD [OF m] by (force simp add: has_key_def)
  then show ?thesis using d by (simp add: list_files_def)
qed

lemma eval_direct_sys: "direct_files ''SYS:'' (files initial_console) = []"
  by (simp add: direct_files_def initial_console_def placeholder_dh0_files_def startswith_def)

lemma eval_direct_ramt:
  "direct_files ''RAM:T'' (files initial_console) = [(''RAM:T/Temp-File'', ''Temporary file'')]"
  by (simp add: direct_files_def initial_console_def placeholder_dh0_files_def startswith_def)

lemma eval_dirs_sys:
  "map_of (directories initial_console) ''SYS:'' =
     Some [''Prefs'', ''Tools'', ''L'', ''S'', ''C'', ''DEVS'', ''Fonts'', ''WBStartup'']"
  by (simp add: initial_console_def)

lemma eval_dirs_ramt: "map_of (directories initial_console) ''RAM:T'' = Some []"
  by (simp add: initial_console_def)

lemma eval_upper_RAMT: "upper ''RAM:T'' = ''RAM:T''"
  by (simp add: upper_def upper_char_def upper_table_def)

lemma eval_str_nat:
  "str_nat 0 = ''0''" "str_nat (Suc 0) = ''1''" "str_nat 8 = ''8''" "str_nat 14 = ''14''"
  by (simp_all add: str_nat.simps)

lemma eval_suc8: "Suc (Suc (Suc (Suc (Suc (Suc (Suc (Suc 0))))))) = 8"
  by simp

lemma eval_fresh_dir:
  "do_dir plain_host initial_console [] = list_virtual_dir plain_host initial_console ''SYS:''"
proof -
  have "list_resolved plain_host initial_console ''SYS:'' =
          list_virtual_dir plain_host initial_console ''SYS:''"
    by (rule list_resolved_virtual [OF eval_dirs_sys])
       (simp_all add: mount_key_def eval_upper_SYS endswith_def startswith_def
          initial_console_def)
  then show ?thesis
    by (simp add: do_dir_def strip_def console_list_files_def) (simp add: initial_console_def)
qed

text \<open>
  C2, as the specification states it, fails: a fresh console session is at \<^verbatim>\<open>SYS:\<close>,
  which has eight subdirectories and no file directly in it, and the footer of \<^verbatim>\<open>dir\<close>
  reports eight files, not zero.
\<close>

theorem listing_footer_counterexample:
  "map_of (directories initial_console) ''SYS:'' =
     Some [''Prefs'', ''Tools'', ''L'', ''S'', ''C'', ''DEVS'', ''Fonts'', ''WBStartup'']
   \<and> direct_files ''SYS:'' (files initial_console) = []
   \<and> last (do_dir plain_host initial_console []) = ''8 files - 8 directories - 0 bytes used''"
  by (simp add: eval_fresh_dir list_virtual_dir_eq [OF eval_dirs_sys] eval_direct_sys
        eval_dirs_sys dir_footer_def eval_suc8 eval_str_nat)

text \<open>
  C2, amended.  For a directory with \<open>M\<close> subdirectories and \<open>N\<close> files directly in
  it, the footer of the console's listing reports \<open>M + N\<close> files, \<open>M\<close> directories
  and, as bytes used, the sum of the \<open>N\<close> files' content lengths (virtual store) or of
  the host sizes of those of the \<open>N\<close> entries that are regular files (host
  directory, when every such size can be read).  The footer of the web terminal's
  listing reports \<open>M\<close> directories and \<open>N\<close> files and no byte total.  The virtual
  files counted are those stored under the directory's path, a slash and a name without
  slash.
\<close>

theorem listing_footer_counts:
  "(map_of (directories st) path = Some dirs \<and>
    map_of (mounted_shared_folders st) (mount_key path) = None \<and>
    \<not> startswith (upper path) ''DH0:'' \<and> path \<noteq> ''C:'' \<longrightarrow>
      last (list_resolved h st path) =
        dir_footer (length dirs + length (direct_files path (files st))) (length dirs)
          (sum_list (map (\<lambda>(fp, content). length content) (direct_files path (files st)))))
   \<and> (map_of (mounted_shared_folders st) (mount_key path) = None \<and>
      startswith (upper path) ''DH0:'' \<and> (is_wsl h \<or> is_windows h) \<and>
      path_exists h (dh0_list_path h path) \<and> path_isdir h (dh0_list_path h path) \<and>
      listdir h (dh0_list_path h path) = Items items \<and>
      sum_file_sizes h (dh0_list_path h path) (host_files h (dh0_list_path h path) items)
        = Inr bytes \<longrightarrow>
      last (list_resolved h st path) =
        dir_footer
          (length (filter (\<lambda>i. path_isdir h (path_join h (dh0_list_path h path) i)) items) +
           length (filter (\<lambda>i. \<not> path_isdir h (path_join h (dh0_list_path h path) i)) items))
          (length (filter (\<lambda>i. path_isdir h (path_join h (dh0_list_path h path) i)) items))
          bytes
      \<and> bytes =
          sum_list (map (\<lambda>f. shown_size h (path_join h (dh0_list_path h path) f))
            (filter (\<lambda>f. path_isfile h (path_join h (dh0_list_path h path) f))
               (host_files h (dh0_list_path h path) items))))
   \<and> (map_of (directories wst) path = Some dirs \<and> \<not> startswith path ''DH0:'' \<longrightarrow>
      (\<exists>body. list_files h wst path =
          body @ listing_footer (length dirs) (length (direct_files path (files wst)))))"
proof (intro conjI impI)
  assume a: "map_of (directories st) path = Some dirs \<and>
    map_of (mounted_shared_folders st) (mount_key path) = None \<and>
    \<not> startswith (upper path) ''DH0:'' \<and> path \<noteq> ''C:''"
  then have "list_resolved h st path = list_virtual_dir h st path"
    using list_resolved_virtual [of st path dirs h] by simp
  then show "last (list_resolved h st path) =
        dir_footer (length dirs + length (direct_files path (files st))) (length dirs)
          (sum_list (map (\<lambda>(fp, content). length content) (direct_files path (files st))))"
    using a list_virtual_dir_eq [of st path dirs h] by simp
next
  assume b: "map_of (mounted_shared_folders st) (mount_key path) = None \<and>
      startswith (upper path) ''DH0:'' \<and> (is_wsl h \<or> is_windows h) \<and>
      path_exists h (dh0_list_path h path) \<and> path_isdir h (dh0_list_path h path) \<and>
      listdir h (dh0_list_path h path) = Items items \<and>
      sum_file_sizes h (dh0_list_path h path) (host_files h (dh0_list_path h path) items)
        = Inr bytes"
  then have "list_resolved h st path = list_dh0_host h st path"
    by (auto simp add: list_resolved_def)
  then show "last (list_resolved h st path) =
        dir_footer
          (length (filter (\<lambda>i. path_isdir h (path_join h (dh0_list_path h path) i)) items) +
           length (filter (\<lambda>i. \<not> path_isdir h (path_join h (dh0_list_path h path) i)) items))
          (length (filter (\<lambda>i. path_isdir h (path_join h (dh0_list_path h path) i)) items))
          bytes"
    using b list_dh0_host_footer [of h path items bytes st] by (simp add: host_counts)
  show "bytes =
          sum_list (map (\<lambda>f. shown_size h (path_join h (dh0_list_path h path) f))
            (filter (\<lambda>f. path_isfile h (path_join h (dh0_list_path h path) f))
               (host_files h (dh0_list_path h path) items)))"
    using b sum_file_sizes_eq by blast
next
  assume c: "map_of (directories wst) path = Some dirs \<and> \<not> startswith path ''DH0:''"
  then have "list_files h wst path = list_placeholder wst path"
    using list_files_virtual [of wst path dirs h] by simp
  then show "\<exists>body. list_files h wst path =
          body @ listing_footer (length dirs) (length (direct_files path (files wst)))"
    using c list_placeholder_eq [of wst path dirs]
    by (metis append.assoc)
qed

theorem listing_footer_counts_witness:
  "last (list_resolved plain_host initial_console ''RAM:T'') = ''1 files - 0 directories - 14 bytes used''
   \<and> last (list_resolved plain_host initial_console ''SYS:'') = ''8 files - 8 directories - 0 bytes used''"
  using listing_footer_counts [of initial_console "''RAM:T''" "[]" plain_host]
    listing_footer_counts [of initial_console "''SYS:''"
      "[''Prefs'', ''Tools'', ''L'', ''S'', ''C'', ''DEVS'', ''Fonts'', ''WBStartup'']" plain_host]
  by (simp add: eval_dirs_sys eval_dirs_ramt eval_direct_sys eval_direct_ramt mount_key_def
        eval_upper_SYS eval_upper_RAMT endswith_def startswith_def dir_footer_def eval_suc8
        eval_str_nat)
     (simp add: initial_console_def)

lemma host_dirs_sorted: "sorted (map lower (host_dirs h p items))"
  by (simp add: host_dirs_def)

lemma host_files_sorted: "sorted (map lower (host_files h p items))"
  by (simp add: host_files_def)

lemma host_dirs_set:
  "set (host_dirs h p items) = {i \<in> set items. path_isdir h (path_join h p i)}"
  by (simp add: host_dirs_def)

lemma host_files_set:
  "set (host_files h p items) = {i \<in> set items. \<not> path_isdir h (path_join h p i)}"
  by (simp add: host_files_def)

lemma list_dh0_host_eq:
  "path_exists h (dh0_list_path h path) \<Longrightarrow> path_isdir h (dh0_list_path h path) \<Longrightarrow>
   listdir h (dh0_list_path h path) = Items items \<Longrightarrow>
   sum_file_sizes h (dh0_list_path h path) (host_files h (dh0_list_path h path) items) = Inr t \<Longrightarrow>
   list_dh0_host h st path =
     [dir_header path (amiga_day h (Some (dh0_list_path h path)))
        (amiga_date h (Some (dh0_list_path h path)) False)] @
     host_dir_lines h (dh0_list_path h path) (host_dirs h (dh0_list_path h path) items) @
     host_file_lines h (dh0_list_path h path) (host_files h (dh0_list_path h path) items) @
     [dir_footer (length (host_dirs h (dh0_list_path h path) items) +
                  length (host_files h (dh0_list_path h path) items))
                 (length (host_dirs h (dh0_list_path h path) items)) t]"
  by (simp add: list_dh0_host_def Let_def)

lemma list_host_dir_eq:
  "listdir h fs_path = Items items \<Longrightarrow>
   list_host_dir h path fs_path =
     listing_header path @ concat (map dir_line (host_dirs h fs_path items)) @
     concat (map (\<lambda>file_name. file_line file_name (shown_size h (path_join h fs_path file_name)))
               (host_files h fs_path items)) @
     listing_footer (length (host_dirs h fs_path items)) (length (host_files h fs_path items))"
  by (simp add: list_host_dir_def host_dirs_def host_files_def)

lemma eval_not_sorted:
  "\<not> sorted (map lower [''Prefs'', ''Tools'', ''L'', ''S'', ''C'', ''DEVS'', ''Fonts'', ''WBStartup''])"
  by (simp add: lower_def lower_char_def lower_table_def)

text \<open>
  C8, as the specification states it, fails for a listing backed by the virtual store:
  \<^verbatim>\<open>dir\<close> in a fresh console session prints the subdirectories of \<^verbatim>\<open>SYS:\<close> in the
  order in which they are stored, which is not sorted case-insensitively.
\<close>

theorem listing_order_counterexample:
  "do_dir plain_host initial_console [] =
     dir_header ''SYS:'' ''Monday'' ''01-Jan-85'' #
     map (\<lambda>d. dir_entry d ''01-Jan-85 12:00:00'')
       [''Prefs'', ''Tools'', ''L'', ''S'', ''C'', ''DEVS'', ''Fonts'', ''WBStartup''] @
     [''8 files - 8 directories - 0 bytes used'']
   \<and> \<not> sorted (map lower [''Prefs'', ''Tools'', ''L'', ''S'', ''C'', ''DEVS'', ''Fonts'', ''WBStartup''])"
proof (intro conjI)
  show "do_dir plain_host initial_console [] =
     dir_header ''SYS:'' ''Monday'' ''01-Jan-85'' #
     map (\<lambda>d. dir_entry d ''01-Jan-85 12:00:00'')
       [''Prefs'', ''Tools'', ''L'', ''S'', ''C'', ''DEVS'', ''Fonts'', ''WBStartup''] @
     [''8 files - 8 directories - 0 bytes used'']"
    by (simp add: eval_fresh_dir list_virtual_dir_eq [OF eval_dirs_sys] eval_direct_sys
          dir_footer_def eval_suc8 eval_str_nat)
       (simp add: plain_host_def)
  show "\<not> sorted (map lower
          [''Prefs'', ''Tools'', ''L'', ''S'', ''C'', ''DEVS'', ''Fonts'', ''WBStartup''])"
    by (rule eval_not_sorted)
qed

text \<open>
  C8, amended.  In every listing the directory entries come before the file entries.
  In a listing of a host directory (the \<^verbatim>\<open>DH0:\<close> overlay of the console and of the web
  terminal) the directory names and the file names are each sorted case-insensitively.
  In a listing backed by the virtual store the directory names appear in the order in
  which the directory holds them and the files in the order of the file table.
\<close>

theorem listing_order:
  "(map_of (directories st) path = Some dirs \<and>
    map_of (mounted_shared_folders st) (mount_key path) = None \<and>
    \<not> startswith (upper path) ''DH0:'' \<and> path \<noteq> ''C:'' \<longrightarrow>
      list_resolved h st path =
        dir_header path (amiga_day h None) (amiga_date h None False) #
        map (\<lambda>d. dir_entry d (amiga_date h None True)) dirs @
        map (\<lambda>(fp, c). file_entry (drop (length path + 1) fp) (length c) ''----rwed''
                          (amiga_date h None True)) (direct_files path (files st)) @
        [dir_footer (length dirs + length (direct_files path (files st))) (length dirs)
           (sum_list (map (\<lambda>(fp, c). length c) (direct_files path (files st))))])
   \<and> (map_of (mounted_shared_folders st) (mount_key path) = None \<and>
      startswith (upper path) ''DH0:'' \<and> (is_wsl h \<or> is_windows h) \<and>
      path_exists h (dh0_list_path h path) \<and> path_isdir h (dh0_list_path h path) \<and>
      listdir h (dh0_list_path h path) = Items items \<and>
      sum_file_sizes h (dh0_list_path h path) (host_files h (dh0_list_path h path) items)
        = Inr bytes \<longrightarrow>
      list_resolved h st path =
        [dir_header path (amiga_day h (Some (dh0_list_path h path)))
           (amiga_date h (Some (dh0_list_path h path)) False)] @
        host_dir_lines h (dh0_list_path h path) (host_dirs h (dh0_list_path h path) items) @
        host_file_lines h (dh0_list_path h path) (host_files h (dh0_list_path h path) items) @
        [dir_footer (length (host_dirs h (dh0_list_path h path) items) +
                     length (host_files h (dh0_list_path h path) items))
                    (length (host_dirs h (dh0_list_path h path) items)) bytes])
   \<and> (listdir h fs_path = Items items \<longrightarrow>
      list_host_dir h path fs_path =
        listing_header path @ concat (map dir_line (host_dirs h fs_path items)) @
        concat (map (\<lambda>file_name. file_line file_name (shown_size h (path_join h fs_path file_name)))
                  (host_files h fs_path items)) @
        listing_footer (length (host_dirs h fs_path items)) (length (host_files h fs_path items)))
   \<and> sorted (map lower (host_dirs h p items)) \<and> sorted (map lower (host_files h p items))
   \<and> set (host_dirs h p items) = {i \<in> set items. path_isdir h (path_join h p i)}
   \<and> set (host_files h p items) = {i \<in> set items. \<not> path_isdir h (path_join h p i)}"
proof (intro conjI impI)
  assume a: "map_of (directories st) path = Some dirs \<and>
    map_of (mounted_shared_folders st) (mount_key path) = None \<and>
    \<not> startswith (upper path) ''DH0:'' \<and> path \<noteq> ''C:''"
  then have "list_resolved h st path = list_virtual_dir h st path"
    using list_resolved_virtual [of st path dirs h] by simp
  then show "list_resolved h st path =
        dir_header path (amiga_day h None) (amiga_date h None False) #
        map (\<lambda>d. dir_entry d (amiga_date h None True)) dirs @
        map (\<lambda>(fp, c). file_entry (drop (length path + 1) fp) (length c) ''----rwed''
                          (amiga_date h None True)) (direct_files path (files st)) @
        [dir_footer (length dirs + length (direct_files path (files st))) (length dirs)
           (sum_list (map (\<lambda>(fp, c). length c) (direct_files path (files st))))]"
    using a list_virtual_dir_eq [of st path dirs h] by simp
next
  assume b: "map_of (mounted_shared_folders st) (mount_key path) = None \<and>
      startswith (upper path) ''DH0:'' \<and> (is_wsl h \<or> is_windows h) \<and>
      path_exists h (dh0_list_path h path) \<and> path_isdir h (dh0_list_path h path) \<and>
      listdir h (dh0_list_path h path) = Items items \<and>
      sum_file_sizes h (dh0_list_path h path) (host_files h (dh0_list_path h path) items)
        = Inr bytes"
  then have "list_resolved h st path = list_dh0_host h st path"
    by (auto simp add: list_resolved_def)
  then show "list_resolved h st path =
        [dir_header path (amiga_day h (Some (dh0_list_path h path)))
           (amiga_date h (Some (dh0_list_path h path)) False)] @
        host_dir_lines h (dh0_list_path h path) (host_dirs h (dh0_list_path h path) items) @
        host_file_lines h (dh0_list_path h path) (host_files h (dh0_list_path h path) items) @
        [dir_footer (length (host_dirs h (dh0_list_path h path) items) +
                     length (host_files h (dh0_list_path h path) items))
                    (length (host_dirs h (dh0_list_path h path) items)) bytes]"
    using b list_dh0_host_eq [of h path items bytes st] by simp
next
  assume "listdir h fs_path = Items items"
  then show "list_host_dir h path fs_path =
        listing_header path @ concat (map dir_line (host_dirs h fs_path items)) @
        concat (map (\<lambda>file_name. file_line file_name (shown_size h (path_join h fs_path file_name)))
                  (host_files h fs_path items)) @
        listing_footer (length (host_dirs h fs_path items)) (length (host_files h fs_path items))"
    by (rule list_host_dir_eq)
qed (simp_all add: host_dirs_sorted host_files_sorted host_dirs_set host_files_set)
lemma eval_dh0_path: "dh0_list_path windows_host ''DH0:'' = drive_root"
  by (simp add: dh0_list_path_def eval_upper_DH0 is_wsl_def windows_host_def drive_root_def)

lemma eval_host_dirs:
  "host_dirs windows_host drive_root [''b.txt'', ''Zed'', ''a.TXT'', ''Apps''] = [''Apps'', ''Zed'']"
  by (simp add: host_dirs_def windows_host_def drive_root_def lower_def lower_char_def
        lower_table_def)

lemma eval_host_files:
  "host_files windows_host drive_root [''b.txt'', ''Zed'', ''a.TXT'', ''Apps''] = [''a.TXT'', ''b.txt'']"
  by (simp add: host_files_def windows_host_def drive_root_def lower_def lower_char_def
        lower_table_def)

lemma eval_sum_sizes:
  "sum_file_sizes windows_host drive_root [''a.TXT'', ''b.txt''] = Inr 12"
  by (simp add: windows_host_def drive_root_def)

theorem listing_order_witness:
  "list_resolved windows_host initial_console ''DH0:'' =
     [dir_header ''DH0:'' ''Monday'' ''01-Jan-85''] @
     host_dir_lines windows_host drive_root [''Apps'', ''Zed''] @
     host_file_lines windows_host drive_root [''a.TXT'', ''b.txt''] @
     [dir_footer 4 2 12]
   \<and> list_resolved plain_host initial_console ''RAM:T'' =
       [dir_header ''RAM:T'' ''Monday'' ''01-Jan-85'',
        file_entry ''Temp-File'' 14 ''----rwed'' ''01-Jan-85 12:00:00'',
        dir_footer 1 0 14]"
  using listing_order [of initial_console "''DH0:''" "[]" windows_host
      "[''b.txt'', ''Zed'', ''a.TXT'', ''Apps'']" 12]
    listing_order [of initial_console "''RAM:T''" "[]" plain_host]
  apply (simp add: eval_dh0_path eval_host_dirs eval_host_files eval_sum_sizes eval_upper_DH0
      eval_upper_RAMT mount_key_def endswith_def startswith_def eval_dirs_ramt eval_direct_ramt)
  apply (simp add: initial_console_def windows_host_def plain_host_def drive_root_def)
  apply (simp add: eval_nat_numeral)
  done

section \<open>Probing the host for a \<^verbatim>\<open>DH0:\<close> path\<close>

lemma dh0_not_parent:
  assumes "startswith (upper path) ''DH0:''"
  shows "path \<noteq> ''..'' \<and> \<not> startswith path ''../'' \<and> path \<noteq> []"
proof (intro conjI notI)
  assume "path = ''..''"
  then show False using assms by (simp add: startswith_def upper_def)
next
  assume "startswith path ''../''"
  then obtain r where "path = ''../'' @ r" by (auto simp add: startswith_iff)
  then show False
    using assms by (simp add: startswith_def upper_def upper_char_def upper_table_def)
next
  assume "path = []"
  then show False using assms by (simp add: startswith_def upper_def)
qed

lemma retry_exact_first: "path_exists h fp \<Longrightarrow> retry_backslash h fp = fp"
  by (simp add: retry_backslash_def)

lemma retry_second:
  "\<not> path_exists h fp \<Longrightarrow> \<not> endswith fp [bslash] \<Longrightarrow> \<not> endswith fp ''/'' \<Longrightarrow>
   path_exists h (fp @ [bslash]) \<Longrightarrow> retry_backslash h fp = fp @ [bslash]"
  by (simp add: retry_backslash_def)

lemma cd_dh0_web:
  assumes "is_windows h" and "CHR '':'' \<in> set path" and "startswith (upper path) ''DH0:''"
    and "upper path \<noteq> ''DH0:''"
  shows "change_directory h st path = cd_dh0 h st path path"
  using assms dh0_not_parent [OF assms(3)] by (simp add: change_directory_def)

lemma cd_dh0_exact:
  "path_exists h (win_fs_path h p) \<Longrightarrow> path_isdir h (win_fs_path h p) \<Longrightarrow>
   cd_dh0 h st p shown = (enter_dir st p, '''')"
  by (simp add: cd_dh0_def retry_exact_first)

lemma cd_dh0_retry:
  "\<not> path_exists h (win_fs_path h p) \<Longrightarrow> \<not> endswith (win_fs_path h p) [bslash] \<Longrightarrow>
   \<not> endswith (win_fs_path h p) ''/'' \<Longrightarrow> path_exists h (win_fs_path h p @ [bslash]) \<Longrightarrow>
   path_isdir h (win_fs_path h p @ [bslash]) \<Longrightarrow>
   cd_dh0 h st p shown = (enter_dir st p, '''')"
  by (simp add: cd_dh0_def retry_second)

lemma list_files_exact:
  "is_windows h \<Longrightarrow> startswith path ''DH0:'' \<Longrightarrow> path \<noteq> ''DH0:'' \<Longrightarrow>
   path_exists h (win_fs_path h path) \<Longrightarrow> path_isdir h (win_fs_path h path) \<Longrightarrow>
   list_files h st path = list_host_dir h path (win_fs_path h path)"
  by (simp add: list_files_def retry_exact_first)

lemma list_files_retry:
  "is_windows h \<Longrightarrow> startswith path ''DH0:'' \<Longrightarrow> path \<noteq> ''DH0:'' \<Longrightarrow>
   \<not> path_exists h (win_fs_path h path) \<Longrightarrow> \<not> endswith (win_fs_path h path) [bslash] \<Longrightarrow>
   \<not> endswith (win_fs_path h path) ''/'' \<Longrightarrow> path_exists h (win_fs_path h path @ [bslash]) \<Longrightarrow>
   path_isdir h (win_fs_path h path @ [bslash]) \<Longrightarrow>
   list_files h st path = list_host_dir h path (win_fs_path h path @ [bslash])"
  by (simp add: list_files_def retry_second)

lemma console_cd_dh0_once:
  assumes "CHR '':'' \<in> set path" and "startswith (upper path) ''DH0:''"
    and "upper path \<noteq> ''DH0:''"
    and "map_of (mounted_shared_folders st) (mount_key path) = None"
  shows "console_change_directory h st path =
           (if (is_wsl h \<or> is_windows h) \<and> path_exists h (console_fs_path h path) \<and>
               path_isdir h (console_fs_path h path)
            then (enter_dir st path, '''')
            else (st, ''Directory '' @ path @ '' not found.''))"
  using assms dh0_not_parent [OF assms(2)] by (simp add: console_change_directory_def)

lemma console_list_dh0_once:
  assumes "startswith (upper path) ''DH0:''"
    and "map_of (mounted_shared_folders st) (mount_key path) = None"
    and "is_wsl h \<or> is_windows h"
    and "\<not> (path_exists h (dh0_list_path h path) \<and> path_isdir h (dh0_list_path h path))"
  shows "list_resolved h st path = [''Directory '' @ path @ '' not found.'']"
  using assms by (auto simp add: list_resolved_def list_dh0_host_def)

lemma eval_upper_games: "upper ''DH0:Games'' = ''DH0:GAMES''"
  by (simp add: upper_def upper_char_def upper_table_def)

lemma eval_win_path: "win_fs_path windows_host ''DH0:Games'' = games_path"
  by (simp add: win_fs_path_def startswith_def replace_char_def windows_host_def drive_root_def
        games_path_def)

lemma eval_console_path: "console_fs_path windows_host ''DH0:Games'' = games_path"
  by (simp add: console_fs_path_def startswith_def replace_char_def is_wsl_def windows_host_def
        drive_root_def games_path_def)

lemma eval_list_path: "dh0_list_path windows_host ''DH0:Games'' = games_path"
  by (simp add: dh0_list_path_def eval_upper_games startswith_def replace_char_def is_wsl_def
        windows_host_def drive_root_def games_path_def)

lemma eval_games_probe:
  "\<not> path_exists windows_host (games_path)"
  "path_exists windows_host (games_path @ [bslash])"
  "path_isdir windows_host (games_path @ [bslash])"
  "is_windows windows_host" "\<not> is_wsl windows_host"
  by (simp_all add: windows_host_def drive_root_def games_path_def is_wsl_def)

lemma eval_games_ends:
  "\<not> endswith (games_path) [bslash]" "\<not> endswith (games_path) ''/''"
  by (simp_all add: endswith_def drive_root_def games_path_def)

lemma eval_no_mounts: "mounted_shared_folders initial_console = []"
  by (simp add: initial_console_def)

lemma eval_mount_key_games: "mount_key ''DH0:Games'' = ''DH0:GAMES:''"
  by (simp add: mount_key_def eval_upper_games endswith_def)

text \<open>
  C9, as the specification states it, fails: on a host where \<^verbatim>\<open>Games\<close> below the drive
  root is found only with a trailing backslash, the web terminal enters
  \<^verbatim>\<open>DH0:Games\<close> after its retry, but the console's change-directory and listing
  probe the mapped path once and report the directory as not found.
\<close>

theorem host_probe_retry_counterexample:
  "\<not> path_exists windows_host (games_path)
   \<and> path_exists windows_host (games_path @ [bslash])
   \<and> path_isdir windows_host (games_path @ [bslash])
   \<and> change_directory windows_host initial_terminal ''DH0:Games''
       = (enter_dir initial_terminal ''DH0:Games'', '''')
   \<and> console_fs_path windows_host ''DH0:Games'' = games_path
   \<and> console_change_directory windows_host initial_console ''DH0:Games''
       = (initial_console, ''Directory DH0:Games not found.'')
   \<and> list_resolved windows_host initial_console ''DH0:Games''
       = [''Directory DH0:Games not found.'']"
proof -
  have m: "map_of (mounted_shared_folders initial_console) (mount_key ''DH0:Games'') = None"
    by (simp add: initial_console_def)
  have s: "startswith (upper ''DH0:Games'') ''DH0:''"
    by (simp add: eval_upper_games startswith_def)
  have a: "change_directory windows_host initial_terminal ''DH0:Games''
             = cd_dh0 windows_host initial_terminal ''DH0:Games'' ''DH0:Games''"
    by (rule cd_dh0_web) (simp_all add: eval_games_probe eval_upper_games startswith_def)
  have b: "cd_dh0 windows_host initial_terminal ''DH0:Games'' ''DH0:Games''
             = (enter_dir initial_terminal ''DH0:Games'', '''')"
    by (rule cd_dh0_retry)
       (simp_all add: eval_win_path eval_games_probe eval_games_ends)
  have c: "console_change_directory windows_host initial_console ''DH0:Games''
             = (initial_console, ''Directory DH0:Games not found.'')"
    using console_cd_dh0_once [OF _ s _ m, of windows_host]
    by (simp add: eval_upper_games eval_console_path eval_games_probe)
  have d: "list_resolved windows_host initial_console ''DH0:Games''
             = [''Directory DH0:Games not found.'']"
    using console_list_dh0_once [OF s m, of windows_host]
    by (simp add: eval_list_path eval_games_probe)
  show ?thesis by (simp add: a b c d eval_games_probe eval_console_path)
qed

text \<open>
  C9, amended.  In the web terminal on Windows, change-directory and directory listing
  for a path below \<^verbatim>\<open>DH0:\<close> probe the mapped host path as it is first; when it exists
  it is the path used, and only when it does not exist and does not end in a separator
  is the path with a trailing backslash probed and used before the directory is
  reported as not found.  The console's change-directory, listing and existence check
  probe the normalised mapped path once and do not retry.
\<close>

theorem host_probe_retry:
  "(is_windows h \<and> CHR '':'' \<in> set path \<and> startswith (upper path) ''DH0:'' \<and>
    upper path \<noteq> ''DH0:'' \<longrightarrow>
      (path_exists h (win_fs_path h path) \<and> path_isdir h (win_fs_path h path) \<longrightarrow>
         change_directory h st path = (enter_dir st path, ''''))
      \<and> (\<not> path_exists h (win_fs_path h path) \<and> \<not> endswith (win_fs_path h path) [bslash] \<and>
         \<not> endswith (win_fs_path h path) ''/'' \<and> path_exists h (win_fs_path h path @ [bslash]) \<and>
         path_isdir h (win_fs_path h path @ [bslash]) \<longrightarrow>
         change_directory h st path = (enter_dir st path, '''')))
   \<and> (is_windows h \<and> startswith path ''DH0:'' \<and> path \<noteq> ''DH0:'' \<longrightarrow>
      (path_exists h (win_fs_path h path) \<and> path_isdir h (win_fs_path h path) \<longrightarrow>
         list_files h st path = list_host_dir h path (win_fs_path h path))
      \<and> (\<not> path_exists h (win_fs_path h path) \<and> \<not> endswith (win_fs_path h path) [bslash] \<and>
         \<not> endswith (win_fs_path h path) ''/'' \<and> path_exists h (win_fs_path h path @ [bslash]) \<and>
         path_isdir h (win_fs_path h path @ [bslash]) \<longrightarrow>
         list_files h st path = list_host_dir h path (win_fs_path h path @ [bslash])))
   \<and> (path_exists h fp \<longrightarrow> retry_backslash h fp = fp)
   \<and> (CHR '':'' \<in> set path \<and> startswith (upper path) ''DH0:'' \<and> upper path \<noteq> ''DH0:'' \<and>
      map_of (mounted_shared_folders cst) (mount_key path) = None \<longrightarrow>
      console_change_directory h cst path =
        (if (is_wsl h \<or> is_windows h) \<and> path_exists h (console_fs_path h path) \<and>
            path_isdir h (console_fs_path h path)
         then (enter_dir cst path, '''')
         else (cst, ''Directory '' @ path @ '' not found.'')))
   \<and> (startswith (upper path) ''DH0:'' \<and>
      map_of (mounted_shared_folders cst) (mount_key path) = None \<and>
      (is_wsl h \<or> is_windows h) \<and>
      \<not> (path_exists h (dh0_list_path h path) \<and> path_isdir h (dh0_list_path h path)) \<longrightarrow>
      list_resolved h cst path = [''Directory '' @ path @ '' not found.''])
   \<and> real_file_exists h path =
       (startswith path ''DH0:'' \<and> (is_wsl h \<or> is_windows h) \<and>
        path_exists h (console_fs_path h path) \<and> path_isfile h (console_fs_path h path))"
proof (intro conjI impI)
  show "real_file_exists h path =
       (startswith path ''DH0:'' \<and> (is_wsl h \<or> is_windows h) \<and>
        path_exists h (console_fs_path h path) \<and> path_isfile h (console_fs_path h path))"
    by (simp add: real_file_exists_def)
qed (simp_all add: cd_dh0_web cd_dh0_exact cd_dh0_retry list_files_exact list_files_retry
       retry_exact_first console_cd_dh0_once console_list_dh0_once)

theorem host_probe_retry_witness:
  "change_directory windows_host initial_terminal ''DH0:Games''
     = (enter_dir initial_terminal ''DH0:Games'', '''')
   \<and> list_files windows_host initial_terminal ''DH0:Games''
     = list_host_dir windows_host ''DH0:Games'' (games_path @ [bslash])
   \<and> console_change_directory windows_host initial_console ''DH0:Games''
     = (initial_console, ''Directory DH0:Games not found.'')"
  using host_probe_retry [of windows_host "''DH0:Games''" initial_terminal _ initial_console]
  by (simp add: eval_upper_games eval_win_path eval_console_path eval_list_path
        eval_games_probe eval_games_ends eval_mount_key_games eval_no_mounts startswith_def)

section \<open>Startup scripts\<close>

lemma run_startup_lines_append:
  "run_startup_lines h b (ls1 @ ls2) acc = run_startup_lines h b ls2 (run_startup_lines h b ls1 acc)"
proof (induction ls1 arbitrary: acc)
  case Nil
  show ?case by simp
next
  case (Cons raw rest)
  obtain st out where acc: "acc = (st, out)" by (cases acc)
  show ?case unfolding acc by (simp add: Cons.IH Let_def split: prod.splits)
qed

lemma console_run_lines_append:
  "console_run_lines h c (ls1 @ ls2) acc =
     console_run_lines h c ls2 (console_run_lines h c ls1 acc)"
proof (induction ls1 arbitrary: acc)
  case Nil
  show ?case by simp
next
  case (Cons raw rest)
  obtain st printed where acc: "acc = (st, printed)" by (cases acc)
  show ?case unfolding acc by (simp add: Cons.IH Let_def split: prod.splits sum.splits)
qed

lemma run_startup_lines_grows:
  "\<exists>more. snd (run_startup_lines h b ls (st, out)) = out @ more"
proof (induction ls arbitrary: st out)
  case Nil
  show ?case by simp
next
  case (Cons raw rest)
  show ?case
  proof (cases "strip raw = [] \<or> startswith (strip raw) '';''")
    case True
    then show ?thesis using Cons.IH [of st out] by auto
  next
    case False
    obtain st' chunk where l: "startup_line h b st (strip raw) = (st', chunk)"
      by (cases "startup_line h b st (strip raw)")
    obtain more where "snd (run_startup_lines h b rest (st', out @ chunk)) = (out @ chunk) @ more"
      using Cons.IH [of st' "out @ chunk"] by blast
    then show ?thesis using False l by auto
  qed
qed

lemma console_run_lines_grows:
  "\<exists>more. snd (console_run_lines h c ls (st, printed)) = printed @ more"
proof (induction ls arbitrary: st printed)
  case Nil
  show ?case by simp
next
  case (Cons raw rest)
  show ?case
  proof (cases "strip raw = [] \<or> startswith (strip raw) '';''")
    case True
    then show ?thesis using Cons.IH [of st printed] by auto
  next
    case False
    obtain st' r where l: "console_startup_try h c st (strip raw) = (st', r)"
      by (cases "console_startup_try h c st (strip raw)")
    show ?thesis
    proof (cases r)
      case (Inl e)
      obtain more where "snd (console_run_lines h c rest
          (st', printed @ [''Error executing startup command '' @ [CHR 0x27] @ strip raw @
                           [CHR 0x27] @ '': '' @ e])) =
          (printed @ [''Error executing startup command '' @ [CHR 0x27] @ strip raw @
                           [CHR 0x27] @ '': '' @ e]) @ more"
        using Cons.IH by blast
      then show ?thesis using False l Inl by auto
    next
      case (Inr ls)
      obtain more where "snd (console_run_lines h c rest (st', printed @ ls)) =
          (printed @ ls) @ more"
        using Cons.IH by blast
      then show ?thesis using False l Inr by auto
    qed
  qed
qed

lemma split_on_nonempty: "split_on c xs \<noteq> []"
  by (induction xs) auto

lemma split_on_append: "split_on c (xs @ c # ys) = split_on c xs @ split_on c ys"
  by (induction xs) (auto simp add: split_on_nonempty)

lemma split_on_single: "c \<notin> set l \<Longrightarrow> split_on c l = [l]"
  by (induction l) auto

lemma join_Cons_Cons: "join [c] ((x # p) # ps) = x # join [c] (p # ps)"
  by (cases ps) auto

lemma join_split_on: "join [c] (split_on c xs) = xs"
proof (induction xs)
  case Nil
  show ?case by simp
next
  case (Cons x xs)
  obtain p ps where s: "split_on c xs = p # ps"
    using split_on_nonempty [of c xs] by (cases "split_on c xs") auto
  show ?case using Cons s by (auto simp add: join_Cons_Cons)
qed

lemma split_on_no_sep: "l \<in> set (split_on c xs) \<Longrightarrow> c \<notin> set l"
proof (induction xs arbitrary: l)
  case Nil
  then show ?case by simp
next
  case (Cons x xs)
  obtain p ps where s: "split_on c xs = p # ps"
    using split_on_nonempty [of c xs] by (cases "split_on c xs") auto
  show ?case using Cons s by (auto split: if_splits)
qed

lemma split_on_middle:
  "c \<notin> set l \<Longrightarrow> split_on c (c1 @ c # l @ c # c2) = split_on c c1 @ l # split_on c c2"
  using split_on_append [of c c1 "l @ c # c2"] split_on_append [of c l c2]
  by (simp add: split_on_single)

lemma startup_lines_skip:
  "(strip raw = [] \<or> startswith (strip raw) '';'') \<longrightarrow>
      run_startup_lines h b (raw # rest) (st, out) = run_startup_lines h b rest (st, out) \<and>
      console_run_lines h c (raw # rest) (cst, printed) =
        console_run_lines h c rest (cst, printed)"
  by auto

lemma run_startup_lines_catch:
  "\<not> (strip raw = [] \<or> startswith (strip raw) '';'') \<and>
      startup_try h b st (strip raw) = (st', Inl e) \<longrightarrow>
      run_startup_lines h b (raw # rest) (st, out) =
        run_startup_lines h b rest
          (st', out @ ''Error executing startup command '' @ [CHR 0x27] @ strip raw @ [CHR 0x27] @
                '': '' @ e @ ''\<newline>'')"
  by (simp add: startup_line_def startup_error_def)

lemma console_run_lines_catch:
  "\<not> (strip raw = [] \<or> startswith (strip raw) '';'') \<and>
      console_startup_try h c cst (strip raw) = (cst', Inl e) \<longrightarrow>
      console_run_lines h c (raw # rest) (cst, printed) =
        console_run_lines h c rest
          (cst', printed @ [''Error executing startup command '' @ [CHR 0x27] @ strip raw @
                            [CHR 0x27] @ '': '' @ e])"
  by simp

lemma run_startup_lines_append_acc:
  "run_startup_lines h b (ls1 @ ls2) (st, out) =
       run_startup_lines h b ls2 (run_startup_lines h b ls1 (st, out))"
  by (rule run_startup_lines_append)

lemma console_run_lines_append_acc:
  "console_run_lines h c (ls1 @ ls2) (cst, printed) =
       console_run_lines h c ls2 (console_run_lines h c ls1 (cst, printed))"
  by (rule console_run_lines_append)

lemma script_is_loop:
  "run_startup_script h b st script_name content =
       run_startup_lines h b (split_on (CHR 0x0A) content)
         (st, ''Executing '' @ script_name @ ''...\<newline>'')"
  by (simp add: run_startup_script_def)

lemma console_script_is_loop:
  "console_run_startup_script h c cst script_name content =
       console_run_lines h c (split_on (CHR 0x0A) content)
         (cst, [''Executing '' @ script_name @ ''...''])"
  by (simp add: console_run_startup_script_def)

lemma script_lines:
  "join [CHR 0x0A] (split_on (CHR 0x0A) content) = content"
  by (rule join_split_on)

lemma script_lines_whole:
  "\<forall>l \<in> set (split_on (CHR 0x0A) content). CHR 0x0A \<notin> set l"
  using split_on_no_sep by blast

lemma script_skip_line:
  "CHR 0x0A \<notin> set l \<and> (strip l = [] \<or> startswith (strip l) '';'') \<longrightarrow>
      run_startup_script h b st script_name (c1 @ CHR 0x0A # l @ CHR 0x0A # c2) =
        run_startup_lines h b (split_on (CHR 0x0A) c2)
          (run_startup_script h b st script_name c1)"
  by (cases "run_startup_lines h b (split_on (CHR 0x0A) c1) (st, ''Executing '' @ script_name @ ''...\<newline>'')")
     (simp add: run_startup_script_def split_on_middle run_startup_lines_append
        del: run_startup_lines.simps, auto)

lemma script_catch_line:
  "CHR 0x0A \<notin> set l \<and> \<not> (strip l = [] \<or> startswith (strip l) '';'') \<and>
      startup_try h b (fst (run_startup_script h b st script_name c1)) (strip l) = (st', Inl e) \<longrightarrow>
      run_startup_script h b st script_name (c1 @ CHR 0x0A # l @ CHR 0x0A # c2) =
        run_startup_lines h b (split_on (CHR 0x0A) c2)
          (st', snd (run_startup_script h b st script_name c1) @
                ''Error executing startup command '' @ [CHR 0x27] @ strip l @ [CHR 0x27] @
                '': '' @ e @ ''\<newline>'')"
  by (cases "run_startup_lines h b (split_on (CHR 0x0A) c1) (st, ''Executing '' @ script_name @ ''...\<newline>'')")
     (simp add: run_startup_script_def split_on_middle run_startup_lines_append
        del: run_startup_lines.simps, auto simp add: startup_line_def startup_error_def)

lemma console_script_skip_line:
  "CHR 0x0A \<notin> set l \<and> (strip l = [] \<or> startswith (strip l) '';'') \<longrightarrow>
      console_run_startup_script h c cst script_name (c1 @ CHR 0x0A # l @ CHR 0x0A # c2) =
        console_run_lines h c (split_on (CHR 0x0A) c2)
          (console_run_startup_script h c cst script_name c1)"
  by (cases "console_run_lines h c (split_on (CHR 0x0A) c1) (cst, [''Executing '' @ script_name @ ''...''])")
     (simp add: console_run_startup_script_def split_on_middle console_run_lines_append
        del: console_run_lines.simps, auto)

lemma console_script_catch_line:
  "CHR 0x0A \<notin> set l \<and> \<not> (strip l = [] \<or> startswith (strip l) '';'') \<and>
      console_startup_try h c (fst (console_run_startup_script h c cst script_name c1)) (strip l)
        = (cst', Inl e) \<longrightarrow>
      console_run_startup_script h c cst script_name (c1 @ CHR 0x0A # l @ CHR 0x0A # c2) =
        console_run_lines h c (split_on (CHR 0x0A) c2)
          (cst', snd (console_run_startup_script h c cst script_name c1) @
                 [''Error executing startup command '' @ [CHR 0x27] @ strip l @ [CHR 0x27] @
                  '': '' @ e])"
  by (cases "console_run_lines h c (split_on (CHR 0x0A) c1) (cst, [''Executing '' @ script_name @ ''...''])")
     (simp add: console_run_startup_script_def split_on_middle console_run_lines_append
        del: console_run_lines.simps, auto)

lemma script_output_grows:
  "\<exists>more. snd (run_startup_script h b st script_name content) =
              ''Executing '' @ script_name @ ''...\<newline>'' @ more"
  using run_startup_lines_grows [of h b "split_on (CHR 0x0A) content" st
      "''Executing '' @ script_name @ ''...\<newline>''"]
  by (simp add: run_startup_script_def)

lemma console_script_output_grows:
  "\<exists>more. snd (console_run_startup_script h c cst script_name content) =
              (''Executing '' @ script_name @ ''...'') # more"
  using console_run_lines_grows [of h c "split_on (CHR 0x0A) content" cst
      "[''Executing '' @ script_name @ ''...'']"]
  by (simp add: console_run_startup_script_def)

text \<open>
  C4.  The script runner emits its heading and then handles the lines of the script
  text (the pieces between its newlines) in order.  It strips each line and skips it
  when it is empty or begins with a semicolon.  For any other line, when the command
  raises, the runner catches the exception, emits
  \<^verbatim>\<open>Error executing startup command '<line>': <message>\<close> with the stripped line and goes
  on with the next line from the terminal the command left.  The runner is total: it
  returns its output for every script text; what it has emitted stays; and running a
  text is running its first lines and then the remaining ones, so no line ends the run.
  This holds for the runner of the web terminal and that of the console.
\<close>

theorem script_line_isolation:
  "((strip raw = [] \<or> startswith (strip raw) '';'') \<longrightarrow>
      run_startup_lines h b (raw # rest) (st, out) = run_startup_lines h b rest (st, out) \<and>
      console_run_lines h c (raw # rest) (cst, printed) =
        console_run_lines h c rest (cst, printed))
   \<and> (\<not> (strip raw = [] \<or> startswith (strip raw) '';'') \<and>
      startup_try h b st (strip raw) = (st', Inl e) \<longrightarrow>
      run_startup_lines h b (raw # rest) (st, out) =
        run_startup_lines h b rest
          (st', out @ ''Error executing startup command '' @ [CHR 0x27] @ strip raw @ [CHR 0x27] @
                '': '' @ e @ ''\<newline>''))
   \<and> (\<not> (strip raw = [] \<or> startswith (strip raw) '';'') \<and>
      console_startup_try h c cst (strip raw) = (cst', Inl e) \<longrightarrow>
      console_run_lines h c (raw # rest) (cst, printed) =
        console_run_lines h c rest
          (cst', printed @ [''Error executing startup command '' @ [CHR 0x27] @ strip raw @
                            [CHR 0x27] @ '': '' @ e]))
   \<and> run_startup_lines h b (ls1 @ ls2) (st, out) =
       run_startup_lines h b ls2 (run_startup_lines h b ls1 (st, out))
   \<and> console_run_lines h c (ls1 @ ls2) (cst, printed) =
       console_run_lines h c ls2 (console_run_lines h c ls1 (cst, printed))
   \<and> (\<exists>more. snd (run_startup_lines h b ls1 (st, out)) = out @ more)
   \<and> (\<exists>more. snd (console_run_lines h c ls1 (cst, printed)) = printed @ more)
   \<and> run_startup_script h b st script_name content =
       run_startup_lines h b (split_on (CHR 0x0A) content)
         (st, ''Executing '' @ script_name @ ''...\<newline>'')
   \<and> console_run_startup_script h c cst script_name content =
       console_run_lines h c (split_on (CHR 0x0A) content)
         (cst, [''Executing '' @ script_name @ ''...''])
   \<and> join [CHR 0x0A] (split_on (CHR 0x0A) content) = content
   \<and> (\<forall>l \<in> set (split_on (CHR 0x0A) content). CHR 0x0A \<notin> set l)
   \<and> (CHR 0x0A \<notin> set l \<and> (strip l = [] \<or> startswith (strip l) '';'') \<longrightarrow>
      run_startup_script h b st script_name (c1 @ CHR 0x0A # l @ CHR 0x0A # c2) =
        run_startup_lines h b (split_on (CHR 0x0A) c2)
          (run_startup_script h b st script_name c1))
   \<and> (CHR 0x0A \<notin> set l \<and> \<not> (strip l = [] \<or> startswith (strip l) '';'') \<and>
      startup_try h b (fst (run_startup_script h b st script_name c1)) (strip l) = (st', Inl e) \<longrightarrow>
      run_startup_script h b st script_name (c1 @ CHR 0x0A # l @ CHR 0x0A # c2) =
        run_startup_lines h b (split_on (CHR 0x0A) c2)
          (st', snd (run_startup_script h b st script_name c1) @
                ''Error executing startup command '' @ [CHR 0x27] @ strip l @ [CHR 0x27] @
                '': '' @ e @ ''\<newline>''))
   \<and> (CHR 0x0A \<notin> set l \<and> (strip l = [] \<or> startswith (strip l) '';'') \<longrightarrow>
      console_run_startup_script h c cst script_name (c1 @ CHR 0x0A # l @ CHR 0x0A # c2) =
        console_run_lines h c (split_on (CHR 0x0A) c2)
          (console_run_startup_script h c cst script_name c1))
   \<and> (CHR 0x0A \<notin> set l \<and> \<not> (strip l = [] \<or> startswith (strip l) '';'') \<and>
      console_startup_try h c (fst (console_run_startup_script h c cst script_name c1)) (strip l)
        = (cst', Inl e) \<longrightarrow>
      console_run_startup_script h c cst script_name (c1 @ CHR 0x0A # l @ CHR 0x0A # c2) =
        console_run_lines h c (split_on (CHR 0x0A) c2)
          (cst', snd (console_run_startup_script h c cst script_name c1) @
                 [''Error executing startup command '' @ [CHR 0x27] @ strip l @ [CHR 0x27] @
                  '': '' @ e]))
   \<and> (\<exists>more. snd (run_startup_script h b st script_name content) =
              ''Executing '' @ script_name @ ''...\<newline>'' @ more)
   \<and> (\<exists>more. snd (console_run_startup_script h c cst script_name content) =
              (''Executing '' @ script_name @ ''...'') # more)"
  by (intro conjI)
     (rule startup_lines_skip,
      rule run_startup_lines_catch,
      rule console_run_lines_catch,
      rule run_startup_lines_append_acc,
      rule console_run_lines_append_acc,
      rule run_startup_lines_grows,
      rule console_run_lines_grows,
      rule script_is_loop,
      rule console_script_is_loop,
      rule script_lines,
      rule script_lines_whole,
      rule script_skip_line,
      rule script_catch_line,
      rule console_script_skip_line,
      rule console_script_catch_line,
      rule script_output_grows,
      rule console_script_output_grows)

lemma eval_strips:
  "strip ''info'' = ''info''" "strip ''guru'' = ''guru''" "strip ''echo ok'' = ''echo ok''"
  "strip ''; comment'' = ''; comment''"
  "strip [CHR ''i'', CHR ''n'', CHR ''f'', CHR ''o'', CHR 0xA0] = ''info''"
  "strip [CHR ''g'', CHR ''u'', CHR ''r'', CHR ''u'', CHR 0xA0] = ''guru''"
  by (simp_all add: strip_def is_space_def)

lemma eval_try_info:
  "startup_try plain_host sample_builtins initial_terminal ''info'' = (initial_terminal, Inl ''boom'')"
  by (simp add: startup_try_def startswith_def lower_def lower_char_def lower_table_def
        split_ws_def is_space_def appending_def sample_builtins_def)

lemma eval_try_guru:
  "console_startup_try plain_host sample_console_commands initial_console ''guru'' =
     (initial_console, Inl ''boom'')"
  by (simp add: console_startup_try_def startswith_def lower_def lower_char_def lower_table_def
        split_ws_def is_space_def sample_console_commands_def)

lemma eval_echo_line:
  "startup_line plain_host sample_builtins st ''echo ok'' = (st, ''ok\<newline>'')"
  by (simp add: startswith_def startup_line_def startup_try_def lower_def lower_char_def
        lower_table_def)

lemma eval_console_echo_line:
  "console_startup_try plain_host sample_console_commands st ''echo ok'' = (st, Inr [''ok''])"
  by (simp add: startswith_def console_startup_try_def lower_def lower_char_def lower_table_def)

lemma eval_script_comment:
  "run_startup_script plain_host sample_builtins initial_terminal ''Startup-Sequence''
     ''; comment\<newline>'' = (initial_terminal, ''Executing Startup-Sequence...\<newline>'')"
  by (simp add: run_startup_script_def strip_def is_space_def startswith_def)

lemma eval_console_script_comment:
  "console_run_startup_script plain_host sample_console_commands initial_console
     ''Startup-Sequence'' ''; comment\<newline>'' =
     (initial_console, [''Executing Startup-Sequence...''])"
  by (simp add: console_run_startup_script_def strip_def is_space_def startswith_def)

theorem script_line_isolation_witness:
  "run_startup_script plain_host sample_builtins initial_terminal ''Startup-Sequence''
     sample_script =
     (initial_terminal,
      ''Executing Startup-Sequence...\<newline>Error executing startup command '' @ [CHR 0x27] @
      ''info'' @ [CHR 0x27] @ '': boom\<newline>ok\<newline>'')
   \<and> console_run_startup_script plain_host sample_console_commands initial_console
       ''Startup-Sequence'' sample_console_script =
     (initial_console,
      [''Executing Startup-Sequence...'',
       ''Error executing startup command '' @ [CHR 0x27] @ ''guru'' @ [CHR 0x27] @ '': boom'',
       ''ok''])
   \<and> run_startup_lines plain_host sample_builtins [''info'', ''echo ok''] (initial_terminal, '''') =
     (initial_terminal,
      ''Error executing startup command '' @ [CHR 0x27] @ ''info'' @ [CHR 0x27] @
      '': boom\<newline>ok\<newline>'')
   \<and> console_run_lines plain_host sample_console_commands [''guru'', ''echo ok'']
       (initial_console, []) =
     (initial_console,
      [''Error executing startup command '' @ [CHR 0x27] @ ''guru'' @ [CHR 0x27] @ '': boom'',
       ''ok''])
   \<and> run_startup_lines plain_host sample_builtins [''; comment'', ''echo ok'']
       (initial_terminal, '''') = (initial_terminal, ''ok\<newline>'')"
proof -
  have a: "run_startup_script plain_host sample_builtins initial_terminal ''Startup-Sequence''
     sample_script =
     (initial_terminal,
      ''Executing Startup-Sequence...\<newline>Error executing startup command '' @ [CHR 0x27] @
      ''info'' @ [CHR 0x27] @ '': boom\<newline>ok\<newline>'')"
    using script_line_isolation [where h = plain_host and b = sample_builtins and st = initial_terminal
        and script_name = "''Startup-Sequence''" and ?c1.0 = "''; comment\<newline>''"
        and l = "[CHR ''i'', CHR ''n'', CHR ''f'', CHR ''o'', CHR 0xA0]" and ?c2.0 = "''echo ok''"
        and st' = initial_terminal and e = "''boom''",
        THEN conjunct2, THEN conjunct2, THEN conjunct2, THEN conjunct2,
        THEN conjunct2, THEN conjunct2, THEN conjunct2, THEN conjunct2,
        THEN conjunct2, THEN conjunct2, THEN conjunct2, THEN conjunct2,
        THEN conjunct1]
    by (simp add: sample_script_def eval_strips eval_script_comment eval_try_info eval_echo_line
          startswith_def)
  have b: "console_run_startup_script plain_host sample_console_commands initial_console
       ''Startup-Sequence'' sample_console_script =
     (initial_console,
      [''Executing Startup-Sequence...'',
       ''Error executing startup command '' @ [CHR 0x27] @ ''guru'' @ [CHR 0x27] @ '': boom'',
       ''ok''])"
    using script_line_isolation [where h = plain_host and c = sample_console_commands and cst = initial_console
        and script_name = "''Startup-Sequence''" and ?c1.0 = "''; comment\<newline>''"
        and l = "[CHR ''g'', CHR ''u'', CHR ''r'', CHR ''u'', CHR 0xA0]" and ?c2.0 = "''echo ok''"
        and cst' = initial_console and e = "''boom''",
        THEN conjunct2, THEN conjunct2, THEN conjunct2, THEN conjunct2,
        THEN conjunct2, THEN conjunct2, THEN conjunct2, THEN conjunct2,
        THEN conjunct2, THEN conjunct2, THEN conjunct2, THEN conjunct2,
        THEN conjunct2, THEN conjunct2, THEN conjunct1]
    by (simp add: sample_console_script_def eval_strips eval_console_script_comment eval_try_guru
          eval_console_echo_line startswith_def)
  have c: "run_startup_lines plain_host sample_builtins [''info'', ''echo ok''] (initial_terminal, '''') =
     (initial_terminal,
      ''Error executing startup command '' @ [CHR 0x27] @ ''info'' @ [CHR 0x27] @
      '': boom\<newline>ok\<newline>'')"
    using script_line_isolation [where raw = "''info''" and h = plain_host and b = sample_builtins
        and rest = "[''echo ok'']" and st = initial_terminal and out = "[]"
        and st' = initial_terminal and e = "''boom''",
        THEN conjunct2, THEN conjunct1]
    by (simp add: eval_strips eval_try_info eval_echo_line startswith_def)
  have d: "console_run_lines plain_host sample_console_commands [''guru'', ''echo ok'']
       (initial_console, []) =
     (initial_console,
      [''Error executing startup command '' @ [CHR 0x27] @ ''guru'' @ [CHR 0x27] @ '': boom'',
       ''ok''])"
    using script_line_isolation [where raw = "''guru''" and h = plain_host and c = sample_console_commands
        and rest = "[''echo ok'']" and cst = initial_console and printed = "[]"
        and cst' = initial_console and e = "''boom''",
        THEN conjunct2, THEN conjunct2, THEN conjunct1]
    by (simp add: eval_strips eval_try_guru eval_console_echo_line startswith_def)
  have e: "run_startup_lines plain_host sample_builtins [''; comment'', ''echo ok'']
       (initial_terminal, '''') = (initial_terminal, ''ok\<newline>'')"
    using script_line_isolation [where raw = "''; comment''" and h = plain_host and b = sample_builtins
        and rest = "[''echo ok'']" and st = initial_terminal and out = "[]" ,
        THEN conjunct1]
    by (simp add: eval_strips eval_echo_line startswith_def)
  show ?thesis using a b c d e by simp
qed

end
